theory Spec2Isabelle
  imports Complex_Main "HOL-Library.Signed_Division" "HOL-Library.Multiset"
begin

section \<open>Data model (src/types.ts)\<close>

text \<open>
  Timestamps are stored by the program as ISO-8601 strings produced by
  \<^verbatim>\<open>Date.prototype.toISOString\<close> and read back with \<^verbatim>\<open>new Date(s).getTime()\<close>.
  A timestamp is represented here by the number of milliseconds since the epoch that
  the string denotes, so that \<^verbatim>\<open>new Date(s).getTime()\<close> is the identity and
  \<^verbatim>\<open>d.toISOString()\<close> stores the reading of the clock. Strings that denote no date
  are outside this representation. The \<^verbatim>\<open>number\<close> fields are \<open>int\<close> (seconds) and
  \<open>rat\<close> (hourly rate); an optional field \<^verbatim>\<open>f?: T\<close> is a \<open>T option\<close>, \<open>None\<close> being
  \<^verbatim>\<open>undefined\<close>.
\<close>

type_synonym timestamp = int

text \<open>
  \<^verbatim>\<open>Partial<Omit<X, 'id' | 'createdAt'>>\<close>: every field may be absent (\<open>None\<close>). For an
  optional field of \<^verbatim>\<open>X\<close> the value carried by a present key may itself be
  \<^verbatim>\<open>undefined\<close> (\<open>Some None\<close>), as in \<^verbatim>\<open>updateTimeEntry(id, { projectId: undefined })\<close>.
\<close>

record ClientUpdates =
  name :: "string option"
  email :: "string option option"
  phone :: "string option option"
  address :: "string option option"
  "notes" :: "string option option"

record ProjectUpdates =
  clientId :: "string option"
  name :: "string option"
  description :: "string option option"
  hourlyRate :: "rat option option"

record TimeEntryUpdates =
  projectId :: "string option option"
  clientId :: "string option option"
  description :: "string option"
  startTime :: "timestamp option"
  endTime :: "timestamp option option"
  duration :: "int option"
  isRunning :: "bool option"

text \<open>
  \<^verbatim>\<open>Omit<X, 'id' | 'createdAt'>\<close> is the record of the remaining fields; the
  entity \<^verbatim>\<open>X\<close> extends it by \<open>id\<close> and \<open>createdAt\<close>.
\<close>

record ClientFields =
  name :: string
  email :: "string option"
  phone :: "string option"
  address :: "string option"
  "notes" :: "string option"

record Client = ClientFields +
  id :: string
  createdAt :: timestamp

record ProjectFields =
  clientId :: string
  name :: string
  description :: "string option"
  hourlyRate :: "rat option"

record Project = ProjectFields +
  id :: string
  createdAt :: timestamp

record TimeEntryFields =
  projectId :: "string option"
  clientId :: "string option"
  description :: string
  startTime :: timestamp
  endTime :: "timestamp option"
  duration :: int
  isRunning :: bool

record TimeEntry = TimeEntryFields +
  id :: string
  createdAt :: timestamp

record AppData =
  clients :: "Client list"
  projects :: "Project list"
  timeEntries :: "TimeEntry list"

section \<open>Persistent store (loadData, saveData)\<close>

text \<open>
  The value kept by \<^verbatim>\<open>localStorage\<close> under \<^verbatim>\<open>STORAGE_KEY\<close> is a string. What
  \<^verbatim>\<open>loadData\<close> does with it depends only on whether it is empty (falsy, so that
  \<^verbatim>\<open>JSON.parse\<close> is not called), on whether \<^verbatim>\<open>JSON.parse\<close> throws, and otherwise on
  which of the three top-level keys the parsed value has. The stored string is
  represented by that information: \<open>Parsed obj\<close> is a text that parses to a value whose
  top-level keys \<^verbatim>\<open>clients\<close>, \<^verbatim>\<open>projects\<close>, \<^verbatim>\<open>timeEntries\<close>, where present, hold arrays
  of entities (a parsed value that is not an object contributes no key to the spread,
  like \<^verbatim>\<open>{}\<close>). \<^verbatim>\<open>JSON.parse(JSON.stringify(d))\<close> is taken to rebuild \<^verbatim>\<open>d\<close>, keys with
  value \<^verbatim>\<open>undefined\<close> being dropped and read back as \<^verbatim>\<open>undefined\<close>.
\<close>

record StoredObject =
  stored_clients :: "Client list option"
  stored_projects :: "Project list option"
  stored_timeEntries :: "TimeEntry list option"

datatype StoredText = EmptyText | Unparseable | Parsed StoredObject

text \<open>
  \<open>item\<close> is \<^verbatim>\<open>localStorage.getItem(STORAGE_KEY)\<close> (\<open>None\<close> for \<^verbatim>\<open>null\<close>);
  \<open>acceptsWrites\<close> says whether \<^verbatim>\<open>localStorage.setItem\<close> succeeds; when it is
  \<open>False\<close> the call throws (quota exceeded, storage disabled) and \<^verbatim>\<open>saveData\<close>
  catches the exception.
\<close>

record Storage =
  item :: "StoredText option"
  acceptsWrites :: bool

definition defaultData :: AppData where
  "defaultData = \<lparr>clients = [], projects = [], timeEntries = []\<rparr>"

text \<open>
  \<^verbatim>\<open>loadData\<close> returns the module-level object \<^verbatim>\<open>defaultData\<close> itself, or a spread over
  it that shares its arrays, and the operations change the object they loaded in place.
  The model takes \<^verbatim>\<open>defaultData\<close> in its initial value. Every operation that changes
  a loaded array in place saves afterwards, and a saved document has all three arrays,
  so that later loads take nothing from \<^verbatim>\<open>defaultData\<close>: the model is exact unless a
  write was refused while the key was missing or lacked an array.
\<close>

text \<open>The object spread \<^verbatim>\<open>{ ...defaultData, ...JSON.parse(stored) }\<close>.\<close>

definition spread :: "AppData \<Rightarrow> StoredObject \<Rightarrow> AppData" where
  "spread d obj =
     \<lparr>clients = (case stored_clients obj of None \<Rightarrow> clients d | Some cs \<Rightarrow> cs),
      projects = (case stored_projects obj of None \<Rightarrow> projects d | Some ps \<Rightarrow> ps),
      timeEntries = (case stored_timeEntries obj of None \<Rightarrow> timeEntries d | Some es \<Rightarrow> es)\<rparr>"

definition loadData :: "Storage \<Rightarrow> AppData" where
  "loadData s =
     (case item s of
        None \<Rightarrow> defaultData
      | Some EmptyText \<Rightarrow> defaultData
      | Some Unparseable \<Rightarrow> defaultData
      | Some (Parsed obj) \<Rightarrow> spread defaultData obj)"

text \<open>\<^verbatim>\<open>JSON.stringify(data)\<close>: a text with all three top-level keys.\<close>

definition stringify :: "AppData \<Rightarrow> StoredText" where
  "stringify data =
     Parsed \<lparr>stored_clients = Some (clients data),
             stored_projects = Some (projects data),
             stored_timeEntries = Some (timeEntries data)\<rparr>"

definition saveData :: "AppData \<Rightarrow> Storage \<Rightarrow> Storage" where
  "saveData data s =
     (if acceptsWrites s then s\<lparr>item := Some (stringify data)\<rparr> else s)"

text \<open>
  The module-level object made explicit. \<^verbatim>\<open>defaultData\<close> is a mutable object of the
  module, and the state that \<^verbatim>\<open>loadData\<close> reads consists of the storage and of the
  current contents of that object. \<open>loadDataIn\<close> is \<^verbatim>\<open>loadData\<close> on such a state: the
  fallback returns the object itself, the spread takes from it the arrays that the
  parsed value lacks. \<open>initialModule s\<close> is the state right after the module is loaded,
  on which \<open>loadDataIn\<close> is \<^const>\<open>loadData\<close>.
\<close>

record ModuleState =
  localStorage :: Storage
  defaultDataObject :: AppData

definition loadDataIn :: "ModuleState \<Rightarrow> AppData" where
  "loadDataIn m =
     (case item (localStorage m) of
        None \<Rightarrow> defaultDataObject m
      | Some EmptyText \<Rightarrow> defaultDataObject m
      | Some Unparseable \<Rightarrow> defaultDataObject m
      | Some (Parsed obj) \<Rightarrow> spread (defaultDataObject m) obj)"

definition initialModule :: "Storage \<Rightarrow> ModuleState" where
  "initialModule s = \<lparr>localStorage = s, defaultDataObject = defaultData\<rparr>"

section \<open>Entity repository\<close>

text \<open>
  \<^verbatim>\<open>Array.prototype.findIndex\<close>: the index of the first element that satisfies the
  predicate; \<open>None\<close> stands for the result \<^verbatim>\<open>-1\<close>. \<^verbatim>\<open>Array.prototype.find\<close> is
  \<^const>\<open>List.find\<close>, with \<open>None\<close> for \<^verbatim>\<open>undefined\<close>.
\<close>

fun findIndex :: "('a \<Rightarrow> bool) \<Rightarrow> 'a list \<Rightarrow> nat option" where
  "findIndex P [] = None"
| "findIndex P (x # xs) = (if P x then Some 0 else map_option Suc (findIndex P xs))"

text \<open>
  \<^verbatim>\<open>projectsToDelete.includes(e.projectId)\<close> on an array of strings: \<^verbatim>\<open>undefined\<close> is
  not an element.
\<close>

definition includes' :: "string list \<Rightarrow> string option \<Rightarrow> bool" where
  "includes' xs v = (case v of None \<Rightarrow> False | Some x \<Rightarrow> x \<in> set xs)"

text \<open>The spread \<^verbatim>\<open>{ ...entity, ...updates }\<close>: a key present in \<^verbatim>\<open>updates\<close> wins.\<close>

definition mergeClient :: "Client \<Rightarrow> ClientUpdates \<Rightarrow> Client" where
  "mergeClient c u =
     c\<lparr>ClientFields.name := (case ClientUpdates.name u of None \<Rightarrow> ClientFields.name c | Some v \<Rightarrow> v),
       ClientFields.email := (case ClientUpdates.email u of None \<Rightarrow> ClientFields.email c | Some v \<Rightarrow> v),
       ClientFields.phone := (case ClientUpdates.phone u of None \<Rightarrow> ClientFields.phone c | Some v \<Rightarrow> v),
       ClientFields.address := (case ClientUpdates.address u of None \<Rightarrow> ClientFields.address c | Some v \<Rightarrow> v),
       ClientFields.notes := (case ClientUpdates.notes u of None \<Rightarrow> ClientFields.notes c | Some v \<Rightarrow> v)\<rparr>"

definition mergeProject :: "Project \<Rightarrow> ProjectUpdates \<Rightarrow> Project" where
  "mergeProject p u =
     p\<lparr>ProjectFields.clientId := (case ProjectUpdates.clientId u of None \<Rightarrow> ProjectFields.clientId p | Some v \<Rightarrow> v),
       ProjectFields.name := (case ProjectUpdates.name u of None \<Rightarrow> ProjectFields.name p | Some v \<Rightarrow> v),
       ProjectFields.description := (case ProjectUpdates.description u of None \<Rightarrow> ProjectFields.description p | Some v \<Rightarrow> v),
       ProjectFields.hourlyRate := (case ProjectUpdates.hourlyRate u of None \<Rightarrow> ProjectFields.hourlyRate p | Some v \<Rightarrow> v)\<rparr>"

definition mergeTimeEntry :: "TimeEntry \<Rightarrow> TimeEntryUpdates \<Rightarrow> TimeEntry" where
  "mergeTimeEntry e u =
     e\<lparr>TimeEntryFields.projectId := (case TimeEntryUpdates.projectId u of None \<Rightarrow> TimeEntryFields.projectId e | Some v \<Rightarrow> v),
       TimeEntryFields.clientId := (case TimeEntryUpdates.clientId u of None \<Rightarrow> TimeEntryFields.clientId e | Some v \<Rightarrow> v),
       TimeEntryFields.description := (case TimeEntryUpdates.description u of None \<Rightarrow> TimeEntryFields.description e | Some v \<Rightarrow> v),
       TimeEntryFields.startTime := (case TimeEntryUpdates.startTime u of None \<Rightarrow> TimeEntryFields.startTime e | Some v \<Rightarrow> v),
       TimeEntryFields.endTime := (case TimeEntryUpdates.endTime u of None \<Rightarrow> TimeEntryFields.endTime e | Some v \<Rightarrow> v),
       TimeEntryFields.duration := (case TimeEntryUpdates.duration u of None \<Rightarrow> TimeEntryFields.duration e | Some v \<Rightarrow> v),
       TimeEntryFields.isRunning := (case TimeEntryUpdates.isRunning u of None \<Rightarrow> TimeEntryFields.isRunning e | Some v \<Rightarrow> v)\<rparr>"

text \<open>
  Every operation returns its result together with the storage it leaves. The pair
  \<open>(None, s)\<close> is the early \<^verbatim>\<open>return null\<close>, taken before anything is written.
\<close>

definition updateClient :: "string \<Rightarrow> ClientUpdates \<Rightarrow> Storage \<Rightarrow> Client option \<times> Storage" where
  "updateClient i updates s =
     (let data = loadData s in
      case findIndex (\<lambda>c. Client.id c = i) (clients data) of
        None \<Rightarrow> (None, s)
      | Some index \<Rightarrow>
          let data' = data\<lparr>clients := (clients data)[index := mergeClient (clients data ! index) updates]\<rparr>
          in (Some (clients data' ! index), saveData data' s))"

definition deleteClient :: "string \<Rightarrow> Storage \<Rightarrow> bool \<times> Storage" where
  "deleteClient i s =
     (let data = loadData s;
          initialLength = length (clients data);
          data1 = data\<lparr>clients := filter (\<lambda>c. Client.id c \<noteq> i) (clients data)\<rparr>;
          projectsToDelete = map Project.id (filter (\<lambda>p. ProjectFields.clientId p = i) (projects data1));
          data2 = data1\<lparr>projects := filter (\<lambda>p. ProjectFields.clientId p \<noteq> i) (projects data1)\<rparr>;
          data3 = data2\<lparr>timeEntries :=
                    filter (\<lambda>e. \<not> includes' projectsToDelete (TimeEntryFields.projectId e)
                                \<and> TimeEntryFields.clientId e \<noteq> Some i) (timeEntries data2)\<rparr>
      in if length (clients data3) < initialLength then (True, saveData data3 s) else (False, s))"

definition updateProject :: "string \<Rightarrow> ProjectUpdates \<Rightarrow> Storage \<Rightarrow> Project option \<times> Storage" where
  "updateProject i updates s =
     (let data = loadData s in
      case findIndex (\<lambda>p. Project.id p = i) (projects data) of
        None \<Rightarrow> (None, s)
      | Some index \<Rightarrow>
          let data' = data\<lparr>projects := (projects data)[index := mergeProject (projects data ! index) updates]\<rparr>
          in (Some (projects data' ! index), saveData data' s))"

definition deleteProject :: "string \<Rightarrow> Storage \<Rightarrow> bool \<times> Storage" where
  "deleteProject i s =
     (let data = loadData s;
          initialLength = length (projects data);
          data1 = data\<lparr>projects := filter (\<lambda>p. Project.id p \<noteq> i) (projects data)\<rparr>;
          data2 = data1\<lparr>timeEntries :=
                    filter (\<lambda>e. TimeEntryFields.projectId e \<noteq> Some i) (timeEntries data1)\<rparr>
      in if length (projects data2) < initialLength then (True, saveData data2 s) else (False, s))"

text \<open>
  \<open>uuid\<close> is the value of \<^verbatim>\<open>crypto.randomUUID()\<close> and \<open>now\<close> the reading of the clock
  (\<^verbatim>\<open>new Date()\<close>) in the call; both are inputs of the model.
\<close>

definition addTimeEntry :: "string \<Rightarrow> timestamp \<Rightarrow> TimeEntryFields \<Rightarrow> Storage \<Rightarrow> TimeEntry \<times> Storage" where
  "addTimeEntry uuid now entry s =
     (let data = loadData s;
          newEntry = TimeEntryFields.extend entry (TimeEntry.fields uuid now);
          data' = data\<lparr>timeEntries := timeEntries data @ [newEntry]\<rparr>
      in (newEntry, saveData data' s))"

definition updateTimeEntry :: "string \<Rightarrow> TimeEntryUpdates \<Rightarrow> Storage \<Rightarrow> TimeEntry option \<times> Storage" where
  "updateTimeEntry i updates s =
     (let data = loadData s in
      case findIndex (\<lambda>e. TimeEntry.id e = i) (timeEntries data) of
        None \<Rightarrow> (None, s)
      | Some index \<Rightarrow>
          let data' = data\<lparr>timeEntries := (timeEntries data)[index := mergeTimeEntry (timeEntries data ! index) updates]\<rparr>
          in (Some (timeEntries data' ! index), saveData data' s))"

definition deleteTimeEntry :: "string \<Rightarrow> Storage \<Rightarrow> bool \<times> Storage" where
  "deleteTimeEntry i s =
     (let data = loadData s;
          initialLength = length (timeEntries data);
          data1 = data\<lparr>timeEntries := filter (\<lambda>e. TimeEntry.id e \<noteq> i) (timeEntries data)\<rparr>
      in if length (timeEntries data1) < initialLength then (True, saveData data1 s) else (False, s))"

text \<open>
  \<^verbatim>\<open>addClient\<close>, on the state with the module-level object. \<^verbatim>\<open>data.clients.push\<close>
  changes the loaded array in place. That array is the one of \<^verbatim>\<open>defaultData\<close> when
  \<^verbatim>\<open>loadData\<close> took the fallback or when the parsed value has no key \<^verbatim>\<open>clients\<close>
  (\<open>clientsOfDefault\<close>); the push is then a change of \<^verbatim>\<open>defaultData\<close> as well, whether
  or not the write that follows is accepted.
\<close>

definition clientsOfDefault :: "Storage \<Rightarrow> bool" where
  "clientsOfDefault s =
     (case item s of Some (Parsed obj) \<Rightarrow> stored_clients obj = None | _ \<Rightarrow> True)"

definition addClient :: "string \<Rightarrow> timestamp \<Rightarrow> ClientFields \<Rightarrow> ModuleState \<Rightarrow> Client \<times> ModuleState" where
  "addClient uuid now client m =
     (let data = loadDataIn m;
          newClient = ClientFields.extend client (Client.fields uuid now);
          data' = data\<lparr>clients := clients data @ [newClient]\<rparr>;
          pushed = (if clientsOfDefault (localStorage m)
                    then (defaultDataObject m)\<lparr>clients := clients data'\<rparr>
                    else defaultDataObject m)
      in (newClient,
          \<lparr>localStorage = saveData data' (localStorage m), defaultDataObject = pushed\<rparr>))"

section \<open>Timer engine\<close>

text \<open>
  \<^verbatim>\<open>Math.floor((now.getTime() - startTime.getTime()) / 1000) + entry.duration\<close>;
  \<open>div\<close> on \<open>int\<close> rounds towards minus infinity, as \<^verbatim>\<open>Math.floor\<close> does. (The
  program divides in binary floating point; for two readings of a clock, whose difference
  is far below \<open>2^53\<close> milliseconds, the floor of that quotient is the integer quotient.)
\<close>

definition elapsed :: "timestamp \<Rightarrow> TimeEntry \<Rightarrow> int" where
  "elapsed now entry = (now - startTime entry) div 1000 + duration entry"

definition noUpdates :: TimeEntryUpdates where
  "noUpdates =
     \<lparr>TimeEntryUpdates.projectId = None, TimeEntryUpdates.clientId = None,
      TimeEntryUpdates.description = None, TimeEntryUpdates.startTime = None,
      TimeEntryUpdates.endTime = None, TimeEntryUpdates.duration = None,
      TimeEntryUpdates.isRunning = None\<rparr>"

definition closeEntry :: "timestamp \<Rightarrow> TimeEntry \<Rightarrow> TimeEntry" where
  "closeEntry now entry =
     (if isRunning entry
      then entry\<lparr>endTime := Some now, duration := elapsed now entry, isRunning := False\<rparr>
      else entry)"

definition stopAllRunningTimers :: "timestamp \<Rightarrow> Storage \<Rightarrow> Storage" where
  "stopAllRunningTimers now s =
     (let data = loadData s;
          data' = data\<lparr>timeEntries := map (closeEntry now) (timeEntries data)\<rparr>
      in saveData data' s)"

text \<open>
  \<open>nowStop\<close> is the clock read by \<^verbatim>\<open>stopAllRunningTimers\<close>, \<open>now\<close> the one read by
  the operation itself, \<open>created\<close> the one read by \<^verbatim>\<open>addTimeEntry\<close>.
\<close>

definition startTimer ::
  "timestamp \<Rightarrow> timestamp \<Rightarrow> string \<Rightarrow> timestamp \<Rightarrow> string \<Rightarrow> string \<Rightarrow> string \<Rightarrow> Storage
     \<Rightarrow> TimeEntry \<times> Storage" where
  "startTimer nowStop now uuid created projId cliId descr s =
     (let s1 = stopAllRunningTimers nowStop s in
      addTimeEntry uuid created
        \<lparr>projectId = Some projId, clientId = Some cliId, description = descr,
         startTime = now, endTime = None, duration = 0, isRunning = True\<rparr> s1)"

definition stopTimer :: "timestamp \<Rightarrow> string \<Rightarrow> Storage \<Rightarrow> TimeEntry option \<times> Storage" where
  "stopTimer now entryId s =
     (let data = loadData s in
      case find (\<lambda>e. TimeEntry.id e = entryId) (timeEntries data) of
        None \<Rightarrow> (None, s)
      | Some entry \<Rightarrow>
          if \<not> isRunning entry then (None, s)
          else updateTimeEntry entryId
                 (noUpdates\<lparr>TimeEntryUpdates.endTime := Some (Some now),
                            TimeEntryUpdates.duration := Some (elapsed now entry),
                            TimeEntryUpdates.isRunning := Some False\<rparr>) s)"

definition pauseTimer :: "timestamp \<Rightarrow> string \<Rightarrow> Storage \<Rightarrow> TimeEntry option \<times> Storage" where
  "pauseTimer now entryId s =
     (let data = loadData s in
      case find (\<lambda>e. TimeEntry.id e = entryId) (timeEntries data) of
        None \<Rightarrow> (None, s)
      | Some entry \<Rightarrow>
          if \<not> isRunning entry then (None, s)
          else updateTimeEntry entryId
                 (noUpdates\<lparr>TimeEntryUpdates.duration := Some (elapsed now entry),
                            TimeEntryUpdates.isRunning := Some False\<rparr>) s)"

definition resumeTimer :: "timestamp \<Rightarrow> timestamp \<Rightarrow> string \<Rightarrow> Storage \<Rightarrow> TimeEntry option \<times> Storage" where
  "resumeTimer nowStop now entryId s =
     (let data = loadData s in
      case find (\<lambda>e. TimeEntry.id e = entryId) (timeEntries data) of
        None \<Rightarrow> (None, s)
      | Some entry \<Rightarrow>
          if isRunning entry then (None, s)
          else let s1 = stopAllRunningTimers nowStop s in
               updateTimeEntry entryId
                 (noUpdates\<lparr>TimeEntryUpdates.startTime := Some now,
                            TimeEntryUpdates.isRunning := Some True\<rparr>) s1)"

definition getRunningTimer :: "Storage \<Rightarrow> TimeEntry option" where
  "getRunningTimer s = find isRunning (timeEntries (loadData s))"

section \<open>CSV export\<close>

text \<open>
  \<^verbatim>\<open>exportToCSV\<close> calls four functions of the JavaScript runtime whose results depend on
  the locale data, the time zone and the engine: \<^verbatim>\<open>toLocaleDateString('de-DE')\<close>,
  \<^verbatim>\<open>toLocaleTimeString('de-DE', ...)\<close>, \<^verbatim>\<open>(duration / 3600).toFixed(2)\<close> (a rounding of
  a binary floating-point quotient) and \<^verbatim>\<open>new Date(string).getTime()\<close> on the string the
  comparator builds. They are parameters of the model. \<open>dateGetTime\<close> is \<open>None\<close> when
  the engine gives \<^verbatim>\<open>Invalid Date\<close>, whose \<^verbatim>\<open>getTime()\<close> is \<^verbatim>\<open>NaN\<close>: ECMAScript
  obliges \<^verbatim>\<open>Date\<close> to parse the format \<^verbatim>\<open>YYYY-MM-DD\<close> (two-digit month and day) only and
  leaves every other string to the implementation.
\<close>

record Runtime =
  toLocaleDateString :: "timestamp \<Rightarrow> string"
  toLocaleTimeString :: "timestamp \<Rightarrow> string"
  hoursToFixed :: "int \<Rightarrow> string"
  dateGetTime :: "string \<Rightarrow> int option"

text \<open>The characters \<^verbatim>\<open>"\<close> and \<^verbatim>\<open>\\n\<close>.\<close>

definition doubleQuote :: char where
  "doubleQuote = CHR 0x22"

definition lineFeed :: char where
  "lineFeed = CHR 0x0A"

text \<open>
  \<^verbatim>\<open>String.prototype.split\<close> with a one-character separator, \<^verbatim>\<open>Array.prototype.join\<close>,
  and \<^verbatim>\<open>replace(/"/g, '""')\<close>.
\<close>

fun split :: "char \<Rightarrow> string \<Rightarrow> string list" where
  "split sep [] = [[]]"
| "split sep (c # cs) =
     (if c = sep then [] # split sep cs
      else (case split sep cs of [] \<Rightarrow> [[c]] | w # ws \<Rightarrow> (c # w) # ws))"

fun join :: "string \<Rightarrow> string list \<Rightarrow> string" where
  "join sep [] = []"
| "join sep [x] = x"
| "join sep (x # y # ys) = x @ sep @ join sep (y # ys)"

fun replaceQuotes :: "string \<Rightarrow> string" where
  "replaceQuotes [] = []"
| "replaceQuotes (c # cs) =
     (if c = doubleQuote then doubleQuote # doubleQuote # replaceQuotes cs
      else c # replaceQuotes cs)"

text \<open>
  \<^verbatim>\<open>Number.prototype.toString\<close> on an integer (decimal digits, a minus sign when
  negative) and \<^verbatim>\<open>padStart(2, '0')\<close>. The remainder \<^verbatim>\<open>%\<close> of JavaScript takes the sign
  of the dividend (\<open>smod\<close>); \<^verbatim>\<open>Math.floor\<close> of a quotient is \<open>div\<close>.
\<close>

fun digits :: "nat \<Rightarrow> string" where
  "digits n = (if n < 10 then [''0123456789'' ! n] else digits (n div 10) @ [''0123456789'' ! (n mod 10)])"

definition toString :: "int \<Rightarrow> string" where
  "toString k = (if k < 0 then CHR ''-'' # digits (nat (- k)) else digits (nat k))"

definition padStart2 :: "string \<Rightarrow> string" where
  "padStart2 str = replicate (2 - length str) CHR ''0'' @ str"

definition formattedDuration :: "int \<Rightarrow> string" where
  "formattedDuration d =
     (let hoursInt = d div 3600;
          mins = (d smod 3600) div 60
      in toString hoursInt @ '':'' @ padStart2 (toString mins))"

definition headers :: "string list" where
  "headers = [''Datum'', ''Kunde'', ''Projekt'', ''Beschreibung'', ''Start'', ''Ende'',
              ''Dauer (h)'', ''Dauer (Std:Min)'']"

definition csvRow :: "Runtime \<Rightarrow> AppData \<Rightarrow> TimeEntry \<Rightarrow> string list" where
  "csvRow rt data entry =
     (let client = find (\<lambda>c. Some (Client.id c) = TimeEntryFields.clientId entry) (clients data);
          project = find (\<lambda>p. Some (Project.id p) = TimeEntryFields.projectId entry) (projects data);
          date = toLocaleDateString rt (startTime entry);
          start = toLocaleTimeString rt (startTime entry);
          end = (case endTime entry of None \<Rightarrow> ''-'' | Some t \<Rightarrow> toLocaleTimeString rt t);
          hours = hoursToFixed rt (duration entry)
      in [date,
          (case client of None \<Rightarrow> ''Unbekannt''
           | Some c \<Rightarrow> if ClientFields.name c = [] then ''Unbekannt'' else ClientFields.name c),
          (case project of None \<Rightarrow> ''Unbekannt''
           | Some p \<Rightarrow> if ProjectFields.name p = [] then ''Unbekannt'' else ProjectFields.name p),
          TimeEntryFields.description entry,
          start, end, hours, formattedDuration (duration entry)])"

text \<open>
  The comparator of \<^verbatim>\<open>rows.sort\<close>: \<^verbatim>\<open>new Date(a[0].split('.').reverse().join('-'))\<close>,
  then \<^verbatim>\<open>dateB.getTime() - dateA.getTime()\<close>, which is \<^verbatim>\<open>NaN\<close> (\<open>None\<close>) as soon as
  one of the two dates is invalid.
\<close>

definition rowTime :: "Runtime \<Rightarrow> string list \<Rightarrow> int option" where
  "rowTime rt row = dateGetTime rt (join ''-'' (rev (split CHR ''.'' (row ! 0))))"

definition compareRows :: "Runtime \<Rightarrow> string list \<Rightarrow> string list \<Rightarrow> int option" where
  "compareRows rt a b =
     (case (rowTime rt a, rowTime rt b) of
        (Some dateA, Some dateB) \<Rightarrow> Some (dateB - dateA)
      | _ \<Rightarrow> None)"

text \<open>
  \<^verbatim>\<open>Array.prototype.sort\<close> is stable and takes a comparator result that is \<^verbatim>\<open>NaN\<close> as
  \<open>0\<close>. For a consistent comparator every stable sort gives the same list; it is modelled
  by insertion from the right. (When some dates parse and others do not the comparator
  is not consistent and ECMAScript leaves the order to the implementation.)
\<close>

fun insertBy :: "('a \<Rightarrow> 'a \<Rightarrow> int option) \<Rightarrow> 'a \<Rightarrow> 'a list \<Rightarrow> 'a list" where
  "insertBy cmp x [] = [x]"
| "insertBy cmp x (y # ys) =
     (case cmp x y of
        None \<Rightarrow> x # y # ys
      | Some v \<Rightarrow> if v > 0 then y # insertBy cmp x ys else x # y # ys)"

definition sortBy :: "('a \<Rightarrow> 'a \<Rightarrow> int option) \<Rightarrow> 'a list \<Rightarrow> 'a list" where
  "sortBy cmp xs = foldr (insertBy cmp) xs []"

definition quoteCell :: "string \<Rightarrow> string" where
  "quoteCell cell = doubleQuote # replaceQuotes cell @ [doubleQuote]"

definition csvLine :: "string list \<Rightarrow> string" where
  "csvLine row = join '';'' (map quoteCell row)"

definition sortedRows :: "Runtime \<Rightarrow> AppData \<Rightarrow> string list list" where
  "sortedRows rt data = sortBy (compareRows rt) (map (csvRow rt data) (timeEntries data))"

definition exportToCSV :: "Runtime \<Rightarrow> Storage \<Rightarrow> string" where
  "exportToCSV rt s =
     (let data = loadData s;
          rows = sortedRows rt data
      in join [lineFeed] (map csvLine (headers # rows)))"


section \<open>Reference notions used to state the properties\<close>

text \<open>
  ``Look the entity up by id and put the merged entity in its place'': the first element
  that satisfies \<open>P\<close> is replaced by its image under \<open>f\<close>, everything else is kept.
\<close>

fun replaceFirst :: "('a \<Rightarrow> bool) \<Rightarrow> ('a \<Rightarrow> 'a) \<Rightarrow> 'a list \<Rightarrow> 'a list" where
  "replaceFirst P f [] = []"
| "replaceFirst P f (x # xs) = (if P x then f x # xs else x # replaceFirst P f xs)"

subsection \<open>Sample documents\<close>

definition acme :: Client where
  "acme = \<lparr>ClientFields.name = ''Acme'', email = None, phone = None, address = None,
            notes = None, Client.id = ''c1'', createdAt = 1000\<rparr>"

definition website :: Project where
  "website = \<lparr>ProjectFields.clientId = ''c1'', name = ''Website'', description = None,
               hourlyRate = Some 80, Project.id = ''p1'', createdAt = 2000\<rparr>"

definition design :: TimeEntry where
  "design = \<lparr>projectId = Some ''p1'', clientId = Some ''c1'', description = ''design'',
              startTime = 10000, endTime = None, duration = 0, isRunning = True,
              TimeEntry.id = ''e1'', createdAt = 10000\<rparr>"

definition sampleData :: AppData where
  "sampleData = \<lparr>clients = [acme], projects = [website], timeEntries = [design]\<rparr>"

definition freshStorage :: Storage where
  "freshStorage = \<lparr>item = None, acceptsWrites = True\<rparr>"

definition refusingStorage :: Storage where
  "refusingStorage = \<lparr>item = None, acceptsWrites = False\<rparr>"

definition partialStorage :: Storage where
  "partialStorage =
     \<lparr>item = Some (Parsed \<lparr>stored_clients = None, stored_projects = Some [website],
                                stored_timeEntries = None\<rparr>),
      acceptsWrites = True\<rparr>"

definition corruptStorage :: Storage where
  "corruptStorage = \<lparr>item = Some Unparseable, acceptsWrites = True\<rparr>"

definition danglingStorage :: Storage where
  "danglingStorage =
     \<lparr>item = Some (stringify \<lparr>clients = [], projects = [website], timeEntries = [design]\<rparr>),
      acceptsWrites = True\<rparr>"

definition sampleStorage :: Storage where
  "sampleStorage = \<lparr>item = Some (stringify sampleData), acceptsWrites = True\<rparr>"

definition busyRefusingStorage :: Storage where
  "busyRefusingStorage = \<lparr>item = Some (stringify sampleData), acceptsWrites = False\<rparr>"

definition stoppedDesign :: TimeEntry where
  "stoppedDesign = design\<lparr>endTime := Some 145000, duration := 135, isRunning := False\<rparr>"

definition pausedDesign :: TimeEntry where
  "pausedDesign = design\<lparr>duration := 125, isRunning := False\<rparr>"

definition review :: TimeEntry where
  "review = \<lparr>projectId = None, clientId = None, description = ''review'',
              startTime = 150000, endTime = None, duration = 0, isRunning = True,
              TimeEntry.id = ''e2'', createdAt = 150000\<rparr>"

definition stoppedStorage :: Storage where
  "stoppedStorage =
     \<lparr>item = Some (stringify \<lparr>clients = [acme], projects = [website], timeEntries = [stoppedDesign]\<rparr>),
      acceptsWrites = True\<rparr>"

definition pausedStorage :: Storage where
  "pausedStorage =
     \<lparr>item = Some (stringify \<lparr>clients = [acme], projects = [website],
                                 timeEntries = [pausedDesign, review]\<rparr>),
      acceptsWrites = True\<rparr>"

definition renameClient :: ClientUpdates where
  "renameClient =
     \<lparr>ClientUpdates.name = Some ''Acme Ltd'', ClientUpdates.email = None,
      ClientUpdates.phone = None, ClientUpdates.address = None, ClientUpdates.notes = None\<rparr>"

definition noProjectUpdates :: ProjectUpdates where
  "noProjectUpdates =
     \<lparr>ProjectUpdates.clientId = None, ProjectUpdates.name = None,
      ProjectUpdates.description = None, ProjectUpdates.hourlyRate = None\<rparr>"

definition describeUpdate :: TimeEntryUpdates where
  "describeUpdate = noUpdates\<lparr>TimeEntryUpdates.description := Some ''logo''\<rparr>"

definition changeProject :: ProjectUpdates where
  "changeProject =
     \<lparr>ProjectUpdates.clientId = None, ProjectUpdates.name = Some ''Relaunch'',
      ProjectUpdates.description = Some (Some ''new site''),
      ProjectUpdates.hourlyRate = Some None\<rparr>"

definition unassign :: TimeEntryUpdates where
  "unassign = noUpdates\<lparr>TimeEntryUpdates.projectId := Some None,
                         TimeEntryUpdates.clientId := Some None,
                         TimeEntryUpdates.description := Some ''logo''\<rparr>"

definition acmeFields :: ClientFields where
  "acmeFields = \<lparr>ClientFields.name = ''Acme'', email = None, phone = None, address = None,
                  notes = None\<rparr>"

definition emptyObjectStorage :: Storage where
  "emptyObjectStorage =
     \<lparr>item = Some (Parsed \<lparr>stored_clients = None, stored_projects = None,
                                stored_timeEntries = None\<rparr>),
      acceptsWrites = True\<rparr>"

definition emptyTextStorage :: Storage where
  "emptyTextStorage = \<lparr>item = Some EmptyText, acceptsWrites = True\<rparr>"

definition globex :: Client where
  "globex = \<lparr>ClientFields.name = ''Globex'', email = None, phone = None, address = None,
              notes = None, Client.id = ''c2'', createdAt = 1500\<rparr>"

definition intranet :: Project where
  "intranet = \<lparr>ProjectFields.clientId = ''c2'', name = ''Intranet'', description = None,
                hourlyRate = None, Project.id = ''p2'', createdAt = 2500\<rparr>"

definition onWebsite :: TimeEntry where
  "onWebsite = \<lparr>projectId = Some ''p1'', clientId = None, description = ''layout'',
                 startTime = 10000, endTime = Some 70000, duration = 60, isRunning = False,
                 TimeEntry.id = ''t1'', createdAt = 10000\<rparr>"

definition forAcme :: TimeEntry where
  "forAcme = \<lparr>projectId = None, clientId = Some ''c1'', description = ''phone call'',
               startTime = 80000, endTime = Some 140000, duration = 60, isRunning = False,
               TimeEntry.id = ''t2'', createdAt = 80000\<rparr>"

definition onIntranet :: TimeEntry where
  "onIntranet = \<lparr>projectId = Some ''p2'', clientId = Some ''c2'', description = ''wiki'',
                  startTime = 150000, endTime = Some 210000, duration = 60, isRunning = False,
                  TimeEntry.id = ''t3'', createdAt = 150000\<rparr>"

definition twoClients :: AppData where
  "twoClients = \<lparr>clients = [acme, globex], projects = [website, intranet],
                  timeEntries = [onWebsite, forAcme, onIntranet]\<rparr>"

definition twoClientsStorage :: Storage where
  "twoClientsStorage = \<lparr>item = Some (stringify twoClients), acceptsWrites = True\<rparr>"

subsection \<open>Cascading delete, in the words of the specification\<close>

text \<open>
  The document without the client \<open>i\<close>: without every Client with that id, every
  Project whose \<open>clientId\<close> is \<open>i\<close>, and every TimeEntry whose \<open>clientId\<close> is \<open>i\<close> or
  whose \<open>projectId\<close> is the id of one of those Projects.
\<close>

definition withoutClient :: "string \<Rightarrow> AppData \<Rightarrow> AppData" where
  "withoutClient i d =
     \<lparr>clients = filter (\<lambda>c. Client.id c \<noteq> i) (clients d),
      projects = filter (\<lambda>p. ProjectFields.clientId p \<noteq> i) (projects d),
      timeEntries =
        filter (\<lambda>e. TimeEntryFields.clientId e \<noteq> Some i
                   \<and> (\<forall>p\<in>set (projects d). ProjectFields.clientId p = i
                          \<longrightarrow> TimeEntryFields.projectId e \<noteq> Some (Project.id p)))
          (timeEntries d)\<rparr>"

subsection \<open>Sequences of timer operations\<close>

text \<open>
  A call of one of the four timer operations, with the readings of the clock and the
  identifier the call draws from its environment.
\<close>

datatype TimerCall =
    Start timestamp timestamp string timestamp string string string
  | Pause timestamp string
  | Resume timestamp timestamp string
  | Stop timestamp string

fun perform :: "TimerCall \<Rightarrow> Storage \<Rightarrow> Storage" where
  "perform (Start nowStop now uuid created projId cliId descr) s =
     snd (startTimer nowStop now uuid created projId cliId descr s)"
| "perform (Pause now entryId) s = snd (pauseTimer now entryId s)"
| "perform (Resume nowStop now entryId) s = snd (resumeTimer nowStop now entryId s)"
| "perform (Stop now entryId) s = snd (stopTimer now entryId s)"

definition performAll :: "TimerCall list \<Rightarrow> Storage \<Rightarrow> Storage" where
  "performAll calls s = fold perform calls s"

definition atMostOneRunning :: "AppData \<Rightarrow> bool" where
  "atMostOneRunning d = (length (filter isRunning (timeEntries d)) \<le> 1)"

subsection \<open>The timer state machine, in the words of the specification\<close>

text \<open>
  The specification describes every entry as \<open>running\<close>, \<open>paused\<close> or \<open>stopped\<close>
  (its section 4.3): \<open>start\<close> closes (stops) every running entry and adds a running
  one; \<open>pause\<close> and \<open>stop\<close> apply to a running entry only; \<open>resume\<close> applies to a
  paused entry only, and closes every running entry first. The machine below keeps, for
  each entry in creation order, its id and its phase; an operation on an id acts on the
  first entry with that id, as the lookups of the program do.
\<close>

datatype Phase = Running | Paused | Stopped

definition closePhase :: "Phase \<Rightarrow> Phase" where
  "closePhase p = (if p = Running then Stopped else p)"

fun specPerform :: "TimerCall \<Rightarrow> (string \<times> Phase) list \<Rightarrow> (string \<times> Phase) list" where
  "specPerform (Start nowStop now uuid created projId cliId descr) m =
     map (apsnd closePhase) m @ [(uuid, Running)]"
| "specPerform (Pause now i) m =
     (case find (\<lambda>x. fst x = i) m of
        None \<Rightarrow> m
      | Some x \<Rightarrow>
          if snd x = Running then replaceFirst (\<lambda>x. fst x = i) (\<lambda>x. (fst x, Paused)) m else m)"
| "specPerform (Resume nowStop now i) m =
     (case find (\<lambda>x. fst x = i) m of
        None \<Rightarrow> m
      | Some x \<Rightarrow>
          if snd x = Paused
          then replaceFirst (\<lambda>x. fst x = i) (\<lambda>x. (fst x, Running)) (map (apsnd closePhase) m)
          else m)"
| "specPerform (Stop now i) m =
     (case find (\<lambda>x. fst x = i) m of
        None \<Rightarrow> m
      | Some x \<Rightarrow>
          if snd x = Running then replaceFirst (\<lambda>x. fst x = i) (\<lambda>x. (fst x, Stopped)) m else m)"

text \<open>
  The phase that the two fields \<open>isRunning\<close> and \<open>endTime\<close> of a stored entry encode,
  and the state of the machine that a document encodes.
\<close>

definition phaseOf :: "TimeEntry \<Rightarrow> Phase" where
  "phaseOf e = (if isRunning e then Running else if endTime e = None then Paused else Stopped)"

abbreviation (input) view :: "TimeEntry \<Rightarrow> string \<times> Phase" where
  "view e \<equiv> (TimeEntry.id e, phaseOf e)"

definition phases :: "AppData \<Rightarrow> (string \<times> Phase) list" where
  "phases d = map view (timeEntries d)"

definition noEndWhileRunning :: "AppData \<Rightarrow> bool" where
  "noEndWhileRunning d = (\<forall>e\<in>set (timeEntries d). isRunning e \<longrightarrow> endTime e = None)"

text \<open>
  A call is admissible in a storage when it is not a \<^verbatim>\<open>resumeTimer\<close> of an entry
  that has an \<open>endTime\<close>; a sequence of calls is admissible when each call is, in the
  storage left by the calls before it.
\<close>

fun admissible :: "TimerCall \<Rightarrow> Storage \<Rightarrow> bool" where
  "admissible (Resume nowStop now i) s =
     (case find (\<lambda>e. TimeEntry.id e = i) (timeEntries (loadData s)) of
        None \<Rightarrow> True
      | Some e \<Rightarrow> endTime e = None)"
| "admissible c s = True"

fun admissibleRun :: "TimerCall list \<Rightarrow> Storage \<Rightarrow> bool" where
  "admissibleRun [] s = True"
| "admissibleRun (c # cs) s = (admissible c s \<and> admissibleRun cs (perform c s))"

text \<open>
  Scenarios 1 and 2 of the specification in one run: start, pause after 125 seconds,
  resume, stop 10 seconds later, then two starts in a row.
\<close>

definition scenario :: "TimerCall list" where
  "scenario =
     [Start 10000 10000 ''e1'' 10000 ''p1'' ''c1'' ''design'',
      Pause 135500 ''e1'',
      Resume 200000 200000 ''e1'',
      Stop 210999 ''e1'',
      Start 300000 300000 ''e2'' 300001 [] [] [],
      Start 300500 300500 ''e3'' 300500 [] [] []]"

definition stopThenResume :: "TimerCall list" where
  "stopThenResume =
     [Start 10000 10000 ''e1'' 10000 ''p1'' ''c1'' ''design'',
      Stop 145000 ''e1'',
      Resume 200000 200000 ''e1'']"

subsection \<open>Rows in descending order of date\<close>

text \<open>Row \<open>a\<close> may stand before row \<open>b\<close>: both dates parse and that of \<open>a\<close> is not earlier.\<close>

definition notEarlier :: "Runtime \<Rightarrow> string list \<Rightarrow> string list \<Rightarrow> bool" where
  "notEarlier rt a b =
     (case rowTime rt a of
        None \<Rightarrow> False
      | Some dateA \<Rightarrow> (case rowTime rt b of None \<Rightarrow> False | Some dateB \<Rightarrow> dateB \<le> dateA))"

subsection \<open>Sample runtimes and a sample document for the export\<close>

text \<open>
  Two entries, of 5 March 2024 and of 7 March 2024 (Europe/Berlin), in this order; the
  German formats of their dates and times; and two parsers for the comparator's string:
  one that accepts the strings \<^verbatim>\<open>2024-3-5\<close> and \<^verbatim>\<open>2024-3-7\<close> as local midnights, as V8
  does, and one that accepts the ECMAScript format only.
\<close>

definition germanRuntime :: "(string \<Rightarrow> int option) \<Rightarrow> Runtime" where
  "germanRuntime parse =
     \<lparr>toLocaleDateString = (\<lambda>t. if t = 1709632800000 then ''5.3.2024''
                                 else if t = 1709803800000 then ''7.3.2024'' else ''1.1.1970''),
      toLocaleTimeString = (\<lambda>t. if t = 1709632800000 then ''11:00''
                                 else if t = 1709632935000 then ''11:02''
                                 else if t = 1709803800000 then ''10:30'' else ''01:00''),
      hoursToFixed = (\<lambda>d. if d = 135 then ''0.04'' else ''0.00''),
      dateGetTime = parse\<rparr>"

definition lenientParse :: "string \<Rightarrow> int option" where
  "lenientParse str =
     (if str = ''2024-3-5'' then Some 1709593200000
      else if str = ''2024-3-7'' then Some 1709766000000 else None)"

definition strictParse :: "string \<Rightarrow> int option" where
  "strictParse str =
     (if str = ''2024-03-05'' then Some 1709596800000
      else if str = ''2024-03-07'' then Some 1709769600000 else None)"

definition logo :: TimeEntry where
  "logo = \<lparr>projectId = Some ''p1'', clientId = Some ''c1'',
            description = ''logo '' @ [doubleQuote] @ ''v2'' @ [doubleQuote],
            startTime = 1709632800000, endTime = Some 1709632935000, duration = 135,
            isRunning = False, TimeEntry.id = ''e1'', createdAt = 1709632800000\<rparr>"

definition call :: TimeEntry where
  "call = \<lparr>projectId = None, clientId = None, description = ''call'',
            startTime = 1709803800000, endTime = None, duration = 0,
            isRunning = True, TimeEntry.id = ''e2'', createdAt = 1709803800000\<rparr>"

definition csvStorage :: Storage where
  "csvStorage =
     \<lparr>item = Some (stringify \<lparr>clients = [acme], projects = [website], timeEntries = [logo, call]\<rparr>),
      acceptsWrites = True\<rparr>"

section \<open>Basic facts\<close>

lemma load_save: "acceptsWrites s \<Longrightarrow> loadData (saveData d s) = d"
  by (simp add: loadData_def saveData_def stringify_def spread_def)

lemma save_refused: "\<not> acceptsWrites s \<Longrightarrow> saveData d s = s"
  by (simp add: saveData_def)

lemma acceptsWrites_saveData: "acceptsWrites (saveData d s) = acceptsWrites s"
  by (simp add: saveData_def)

lemma findIndex_None: "findIndex P xs = None \<longleftrightarrow> find P xs = None"
  by (induction xs) auto

lemma findIndex_Some:
  "findIndex P xs = Some n \<Longrightarrow>
     n < length xs \<and> find P xs = Some (xs ! n) \<and> xs[n := f (xs ! n)] = replaceFirst P f xs
       \<and> replaceFirst P f xs ! n = f (xs ! n)"
  by (induction xs arbitrary: n) (auto split: if_splits)

lemma updateClient_find:
  "updateClient i u s =
     (case find (\<lambda>c. Client.id c = i) (clients (loadData s)) of
        None \<Rightarrow> (None, s)
      | Some c \<Rightarrow>
          (Some (mergeClient c u),
           saveData ((loadData s)\<lparr>clients :=
              replaceFirst (\<lambda>c. Client.id c = i) (\<lambda>c. mergeClient c u) (clients (loadData s))\<rparr>) s))"
proof (cases "findIndex (\<lambda>c. Client.id c = i) (clients (loadData s))")
  case None
  moreover from None have "find (\<lambda>c. Client.id c = i) (clients (loadData s)) = None"
    by (simp add: findIndex_None)
  ultimately show ?thesis by (simp add: updateClient_def)
next
  case (Some n)
  from findIndex_Some[OF Some, of "\<lambda>c. mergeClient c u"] Some
  show ?thesis by (simp add: updateClient_def Let_def)
qed

lemma updateProject_find:
  "updateProject i u s =
     (case find (\<lambda>p. Project.id p = i) (projects (loadData s)) of
        None \<Rightarrow> (None, s)
      | Some p \<Rightarrow>
          (Some (mergeProject p u),
           saveData ((loadData s)\<lparr>projects :=
              replaceFirst (\<lambda>p. Project.id p = i) (\<lambda>p. mergeProject p u) (projects (loadData s))\<rparr>) s))"
proof (cases "findIndex (\<lambda>p. Project.id p = i) (projects (loadData s))")
  case None
  moreover from None have "find (\<lambda>p. Project.id p = i) (projects (loadData s)) = None"
    by (simp add: findIndex_None)
  ultimately show ?thesis by (simp add: updateProject_def)
next
  case (Some n)
  from findIndex_Some[OF Some, of "\<lambda>p. mergeProject p u"] Some
  show ?thesis by (simp add: updateProject_def Let_def)
qed

lemma updateTimeEntry_find:
  "updateTimeEntry i u s =
     (case find (\<lambda>e. TimeEntry.id e = i) (timeEntries (loadData s)) of
        None \<Rightarrow> (None, s)
      | Some e \<Rightarrow>
          (Some (mergeTimeEntry e u),
           saveData ((loadData s)\<lparr>timeEntries :=
              replaceFirst (\<lambda>e. TimeEntry.id e = i) (\<lambda>e. mergeTimeEntry e u) (timeEntries (loadData s))\<rparr>) s))"
proof (cases "findIndex (\<lambda>e. TimeEntry.id e = i) (timeEntries (loadData s))")
  case None
  moreover from None have "find (\<lambda>e. TimeEntry.id e = i) (timeEntries (loadData s)) = None"
    by (simp add: findIndex_None)
  ultimately show ?thesis by (simp add: updateTimeEntry_def)
next
  case (Some n)
  from findIndex_Some[OF Some, of "\<lambda>e. mergeTimeEntry e u"] Some
  show ?thesis by (simp add: updateTimeEntry_def Let_def)
qed

section \<open>Persistent store: loading\<close>

lemma loadData_initialModule: "loadDataIn (initialModule s) = loadData s"
  by (simp add: loadDataIn_def initialModule_def loadData_def
      split: option.splits StoredText.splits)

lemma loadDataIn_saveData:
  "acceptsWrites (localStorage m)
     \<Longrightarrow> loadDataIn (m\<lparr>localStorage := saveData d (localStorage m)\<rparr>) = d"
  by (simp add: loadDataIn_def saveData_def stringify_def spread_def)

text \<open>
  After an accepted write the module-level object no longer matters: the document read
  back is the loaded one with the new client pushed.
\<close>

lemma addClient_accepted:
  assumes "acceptsWrites (localStorage m)"
  shows "loadDataIn (snd (addClient uuid now client m))
           = (loadDataIn m)\<lparr>clients := clients (loadDataIn m)
                 @ [ClientFields.extend client (Client.fields uuid now)]\<rparr>"
  using assms
  by (simp add: addClient_def Let_def loadDataIn_def saveData_def stringify_def spread_def)

text \<open>
  The pushed client stays in the module-level object when the loaded array was the
  array of that object, whatever happens to the write.
\<close>

lemma addClient_defaultDataObject:
  "defaultDataObject (snd (addClient uuid now client m))
     = (if clientsOfDefault (localStorage m)
        then (defaultDataObject m)\<lparr>clients := clients (defaultDataObject m)
               @ [ClientFields.extend client (Client.fields uuid now)]\<rparr>
        else defaultDataObject m)"
  by (simp add: addClient_def Let_def loadDataIn_def clientsOfDefault_def spread_def
      split: option.splits StoredText.splits)

text \<open>
  C9, as stated, asks that only a completely missing key or a parse failure yields the
  all-empty default. That does not hold. A stored text \<^verbatim>\<open>{}\<close> is present and
  parses, and so does the text written by \<^verbatim>\<open>saveData(defaultData)\<close>; \<^verbatim>\<open>loadData\<close>
  returns the all-empty document for both, as it does for a stored empty text. In the
  other direction, a missing key does not always yield the all-empty document: the
  fallback returns the module-level object \<^verbatim>\<open>defaultData\<close> itself, and after
  \<^verbatim>\<open>addClient\<close> on an empty storage that refuses the write the key is still missing
  while \<^verbatim>\<open>loadData\<close> returns a document with the added client.
\<close>

theorem loadData_all_empty_counterexample:
  "item emptyObjectStorage
     = Some (Parsed \<lparr>stored_clients = None, stored_projects = None, stored_timeEntries = None\<rparr>)
   \<and> loadData emptyObjectStorage = \<lparr>clients = [], projects = [], timeEntries = []\<rparr>
   \<and> item (saveData defaultData freshStorage) = Some (stringify defaultData)
   \<and> loadData (saveData defaultData freshStorage)
       = \<lparr>clients = [], projects = [], timeEntries = []\<rparr>
   \<and> loadData emptyTextStorage = \<lparr>clients = [], projects = [], timeEntries = []\<rparr>
   \<and> item (localStorage (snd (addClient ''c1'' 1000 acmeFields (initialModule refusingStorage))))
       = None
   \<and> loadDataIn (snd (addClient ''c1'' 1000 acmeFields (initialModule refusingStorage)))
       = \<lparr>clients = [acme], projects = [], timeEntries = []\<rparr>"
  by (simp add: emptyObjectStorage_def emptyTextStorage_def loadData_def spread_def
      defaultData_def saveData_def freshStorage_def stringify_def addClient_def Let_def
      loadDataIn_def initialModule_def refusingStorage_def clientsOfDefault_def acmeFields_def
      acme_def ClientFields.defs Client.defs)

text \<open>
  C9, amended. \<^verbatim>\<open>loadData\<close> fills in missing top-level fields from the module-level
  object \<^verbatim>\<open>defaultData\<close>. When the stored text is not empty and parses, the result is
  the parsed value spread over \<^verbatim>\<open>defaultData\<close>: a top-level array that is present is
  kept, one that is absent is the array that \<^verbatim>\<open>defaultData\<close> holds at that moment, and
  all three fields are present. A missing key, an empty text and a text that fails to
  parse give \<^verbatim>\<open>defaultData\<close> itself. As long as \<^verbatim>\<open>defaultData\<close> has its initial value,
  an absent array becomes the empty array, and the result is the all-empty document
  exactly when there is no parsed object or every array the parsed object holds is empty.
\<close>

theorem loadData_fills_missing_fields:
  "loadDataIn m =
     (case item (localStorage m) of
        Some (Parsed obj) \<Rightarrow>
          \<lparr>clients = (case stored_clients obj of
                        None \<Rightarrow> clients (defaultDataObject m) | Some cs \<Rightarrow> cs),
           projects = (case stored_projects obj of
                         None \<Rightarrow> projects (defaultDataObject m) | Some ps \<Rightarrow> ps),
           timeEntries = (case stored_timeEntries obj of
                            None \<Rightarrow> timeEntries (defaultDataObject m) | Some es \<Rightarrow> es)\<rparr>
      | _ \<Rightarrow> defaultDataObject m)
   \<and> loadDataIn (initialModule s) = loadData s
   \<and> loadData s =
     (case item s of
        Some (Parsed obj) \<Rightarrow>
          \<lparr>clients = (case stored_clients obj of None \<Rightarrow> [] | Some cs \<Rightarrow> cs),
           projects = (case stored_projects obj of None \<Rightarrow> [] | Some ps \<Rightarrow> ps),
           timeEntries = (case stored_timeEntries obj of None \<Rightarrow> [] | Some es \<Rightarrow> es)\<rparr>
      | _ \<Rightarrow> \<lparr>clients = [], projects = [], timeEntries = []\<rparr>)
   \<and> (loadData s = \<lparr>clients = [], projects = [], timeEntries = []\<rparr>) =
     (case item s of
        Some (Parsed obj) \<Rightarrow>
          (stored_clients obj = None \<or> stored_clients obj = Some [])
          \<and> (stored_projects obj = None \<or> stored_projects obj = Some [])
          \<and> (stored_timeEntries obj = None \<or> stored_timeEntries obj = Some [])
      | _ \<Rightarrow> True)"
proof -
  have "loadDataIn m =
     (case item (localStorage m) of
        Some (Parsed obj) \<Rightarrow>
          \<lparr>clients = (case stored_clients obj of
                        None \<Rightarrow> clients (defaultDataObject m) | Some cs \<Rightarrow> cs),
           projects = (case stored_projects obj of
                         None \<Rightarrow> projects (defaultDataObject m) | Some ps \<Rightarrow> ps),
           timeEntries = (case stored_timeEntries obj of
                            None \<Rightarrow> timeEntries (defaultDataObject m) | Some es \<Rightarrow> es)\<rparr>
      | _ \<Rightarrow> defaultDataObject m)"
    by (simp add: loadDataIn_def spread_def split: option.splits StoredText.splits)
  moreover have "loadDataIn (initialModule s) = loadData s"
    by (rule loadData_initialModule)
  moreover have "loadData s =
     (case item s of
        Some (Parsed obj) \<Rightarrow>
          \<lparr>clients = (case stored_clients obj of None \<Rightarrow> [] | Some cs \<Rightarrow> cs),
           projects = (case stored_projects obj of None \<Rightarrow> [] | Some ps \<Rightarrow> ps),
           timeEntries = (case stored_timeEntries obj of None \<Rightarrow> [] | Some es \<Rightarrow> es)\<rparr>
      | _ \<Rightarrow> \<lparr>clients = [], projects = [], timeEntries = []\<rparr>)"
    by (simp add: loadData_def spread_def defaultData_def split: option.splits StoredText.splits)
  moreover have "(loadData s = \<lparr>clients = [], projects = [], timeEntries = []\<rparr>) =
     (case item s of
        Some (Parsed obj) \<Rightarrow>
          (stored_clients obj = None \<or> stored_clients obj = Some [])
          \<and> (stored_projects obj = None \<or> stored_projects obj = Some [])
          \<and> (stored_timeEntries obj = None \<or> stored_timeEntries obj = Some [])
      | _ \<Rightarrow> True)"
    by (auto simp add: loadData_def spread_def defaultData_def
        split: option.splits StoredText.splits)
  ultimately show ?thesis by (simp only: simp_thms)
qed

theorem loadData_fills_missing_fields_witness:
  "loadData partialStorage = \<lparr>clients = [], projects = [website], timeEntries = []\<rparr>
   \<and> loadDataIn \<lparr>localStorage = partialStorage,
                  defaultDataObject = \<lparr>clients = [acme], projects = [], timeEntries = [design]\<rparr>\<rparr>
       = \<lparr>clients = [acme], projects = [website], timeEntries = [design]\<rparr>
   \<and> loadDataIn \<lparr>localStorage = corruptStorage,
                  defaultDataObject = \<lparr>clients = [acme], projects = [], timeEntries = [design]\<rparr>\<rparr>
       = \<lparr>clients = [acme], projects = [], timeEntries = [design]\<rparr>
   \<and> loadData corruptStorage = defaultData
   \<and> loadData freshStorage = defaultData
   \<and> loadData partialStorage \<noteq> defaultData"
  using loadData_fills_missing_fields [of
      "\<lparr>localStorage = partialStorage,
        defaultDataObject = \<lparr>clients = [acme], projects = [], timeEntries = [design]\<rparr>\<rparr>"
      partialStorage]
    loadData_fills_missing_fields [of
      "\<lparr>localStorage = corruptStorage,
        defaultDataObject = \<lparr>clients = [acme], projects = [], timeEntries = [design]\<rparr>\<rparr>"
      corruptStorage]
    loadData_fills_missing_fields [of "initialModule freshStorage" freshStorage]
  by (simp add: partialStorage_def corruptStorage_def freshStorage_def defaultData_def)

section \<open>Persistent store: round trip\<close>

text \<open>
  C7, as stated, asks that \<^verbatim>\<open>saveData(d)\<close> followed by \<^verbatim>\<open>loadData()\<close> gives back
  \<open>d\<close> for every document. \<^verbatim>\<open>saveData\<close> catches the exception of a refused write and
  returns normally, so on a storage that refuses the write the document read back is
  the one stored before (here: none, hence the empty default), not \<open>d\<close>.
\<close>

theorem roundtrip_refused_counterexample:
  "loadData (saveData sampleData refusingStorage) \<noteq> sampleData"
  by (simp add: saveData_def refusingStorage_def loadData_def defaultData_def sampleData_def)

text \<open>
  C7, amended. When the storage accepts the write, \<^verbatim>\<open>saveData(d)\<close> followed by
  \<^verbatim>\<open>loadData()\<close> returns \<open>d\<close>: all entities, ids, timestamps and fields, whatever was
  stored before.
\<close>

theorem saveData_loadData_roundtrip:
  "acceptsWrites s \<Longrightarrow> loadData (saveData d s) = d"
  by (simp add: loadData_def saveData_def stringify_def spread_def)

theorem saveData_loadData_roundtrip_witness:
  "acceptsWrites freshStorage \<and> loadData (saveData sampleData freshStorage) = sampleData"
  using saveData_loadData_roundtrip [of freshStorage sampleData]
  by (simp add: freshStorage_def)

section \<open>Facts about the operations\<close>

lemma length_filter_less_iff: "length (filter P xs) < length xs \<longleftrightarrow> (\<exists>x\<in>set xs. \<not> P x)"
proof
  assume "length (filter P xs) < length xs"
  then have "filter P xs \<noteq> xs" by auto
  then show "\<exists>x\<in>set xs. \<not> P x" by (simp add: filter_id_conv)
next
  assume "\<exists>x\<in>set xs. \<not> P x"
  then show "length (filter P xs) < length xs" by (auto intro: length_filter_less)
qed

lemma merge_pause:
  "mergeTimeEntry e (noUpdates\<lparr>TimeEntryUpdates.duration := Some d, TimeEntryUpdates.isRunning := Some b\<rparr>)
     = e\<lparr>duration := d, isRunning := b\<rparr>"
  by (simp add: mergeTimeEntry_def noUpdates_def)

lemma merge_stop:
  "mergeTimeEntry e (noUpdates\<lparr>TimeEntryUpdates.endTime := Some (Some t),
       TimeEntryUpdates.duration := Some d, TimeEntryUpdates.isRunning := Some b\<rparr>)
     = e\<lparr>endTime := Some t, duration := d, isRunning := b\<rparr>"
  by (simp add: mergeTimeEntry_def noUpdates_def)

lemma merge_resume:
  "mergeTimeEntry e (noUpdates\<lparr>TimeEntryUpdates.startTime := Some t, TimeEntryUpdates.isRunning := Some b\<rparr>)
     = e\<lparr>startTime := t, isRunning := b\<rparr>"
  by (simp add: mergeTimeEntry_def noUpdates_def)

lemma includes'_iff:
  "includes' (map Project.id (filter (\<lambda>p. ProjectFields.clientId p = i) ps)) v
     \<longleftrightarrow> (\<exists>p\<in>set ps. ProjectFields.clientId p = i \<and> v = Some (Project.id p))"
  by (cases v) (auto simp: includes'_def)

lemma deleteClient_doc:
  "deleteClient i s =
     (if \<exists>c\<in>set (clients (loadData s)). Client.id c = i
      then (True, saveData (withoutClient i (loadData s)) s)
      else (False, s))"
proof -
  have "filter (\<lambda>e. \<not> includes' (map Project.id (filter (\<lambda>p. ProjectFields.clientId p = i) ps))
                        (TimeEntryFields.projectId e) \<and> TimeEntryFields.clientId e \<noteq> Some i) es
      = filter (\<lambda>e. TimeEntryFields.clientId e \<noteq> Some i
                   \<and> (\<forall>p\<in>set ps. ProjectFields.clientId p = i
                          \<longrightarrow> TimeEntryFields.projectId e \<noteq> Some (Project.id p))) es"
    for ps :: "Project list" and es :: "TimeEntry list"
    by (rule filter_cong) (auto simp: includes'_iff)
  then show ?thesis
    by (cases "loadData s")
       (simp add: deleteClient_def Let_def length_filter_less_iff withoutClient_def)
qed

lemma closeEntry_id [simp]: "TimeEntry.id (closeEntry t e) = TimeEntry.id e"
  by (simp add: closeEntry_def)

lemma closeEntry_not_running [simp]: "\<not> isRunning (closeEntry t e)"
  by (simp add: closeEntry_def)

lemma closeEntry_idle: "\<not> isRunning e \<Longrightarrow> closeEntry t e = e"
  by (simp add: closeEntry_def)

lemma find_closeEntry:
  "find (\<lambda>e. TimeEntry.id e = i) (map (closeEntry t) xs)
     = map_option (closeEntry t) (find (\<lambda>e. TimeEntry.id e = i) xs)"
  by (induction xs) auto

lemma loadData_stopAll:
  "loadData (stopAllRunningTimers t s) =
     (if acceptsWrites s
      then (loadData s)\<lparr>timeEntries := map (closeEntry t) (timeEntries (loadData s))\<rparr>
      else loadData s)"
  by (simp add: stopAllRunningTimers_def Let_def load_save save_refused)

lemma acceptsWrites_stopAll [simp]:
  "acceptsWrites (stopAllRunningTimers t s) = acceptsWrites s"
  by (simp add: stopAllRunningTimers_def Let_def acceptsWrites_saveData)

lemma find_after_stopAll:
  assumes "find (\<lambda>e. TimeEntry.id e = i) (timeEntries (loadData s)) = Some entry"
    and "\<not> isRunning entry"
  shows "find (\<lambda>e. TimeEntry.id e = i) (timeEntries (loadData (stopAllRunningTimers t s))) = Some entry"
  using assms by (simp add: loadData_stopAll find_closeEntry closeEntry_idle)

lemma pauseTimer_find:
  "pauseTimer now entryId s =
     (case find (\<lambda>e. TimeEntry.id e = entryId) (timeEntries (loadData s)) of
        None \<Rightarrow> (None, s)
      | Some entry \<Rightarrow>
          if isRunning entry
          then (Some (entry\<lparr>duration := (now - startTime entry) div 1000 + duration entry,
                              isRunning := False\<rparr>),
                saveData ((loadData s)\<lparr>timeEntries :=
                   replaceFirst (\<lambda>e. TimeEntry.id e = entryId)
                     (\<lambda>e. e\<lparr>duration := (now - startTime entry) div 1000 + duration entry,
                              isRunning := False\<rparr>)
                     (timeEntries (loadData s))\<rparr>) s)
          else (None, s))"
  by (simp add: pauseTimer_def Let_def updateTimeEntry_find merge_pause elapsed_def
      split: option.splits)

lemma stopTimer_find:
  "stopTimer now entryId s =
     (case find (\<lambda>e. TimeEntry.id e = entryId) (timeEntries (loadData s)) of
        None \<Rightarrow> (None, s)
      | Some entry \<Rightarrow>
          if isRunning entry
          then (Some (entry\<lparr>endTime := Some now,
                              duration := (now - startTime entry) div 1000 + duration entry,
                              isRunning := False\<rparr>),
                saveData ((loadData s)\<lparr>timeEntries :=
                   replaceFirst (\<lambda>e. TimeEntry.id e = entryId)
                     (\<lambda>e. e\<lparr>endTime := Some now,
                              duration := (now - startTime entry) div 1000 + duration entry,
                              isRunning := False\<rparr>)
                     (timeEntries (loadData s))\<rparr>) s)
          else (None, s))"
  by (simp add: stopTimer_def Let_def updateTimeEntry_find merge_stop elapsed_def
      split: option.splits)

lemma resumeTimer_find:
  "resumeTimer nowStop now entryId s =
     (case find (\<lambda>e. TimeEntry.id e = entryId) (timeEntries (loadData s)) of
        None \<Rightarrow> (None, s)
      | Some entry \<Rightarrow>
          if isRunning entry then (None, s)
          else (Some (entry\<lparr>startTime := now, isRunning := True\<rparr>),
                saveData ((loadData (stopAllRunningTimers nowStop s))\<lparr>timeEntries :=
                   replaceFirst (\<lambda>e. TimeEntry.id e = entryId)
                     (\<lambda>e. e\<lparr>startTime := now, isRunning := True\<rparr>)
                     (timeEntries (loadData (stopAllRunningTimers nowStop s)))\<rparr>)
                  (stopAllRunningTimers nowStop s)))"
  by (simp add: resumeTimer_def Let_def updateTimeEntry_find merge_resume find_after_stopAll
      split: option.splits)

section \<open>Entity repository: updates\<close>

text \<open>
  The spread \<^verbatim>\<open>{ ...entity, ...updates }\<close>, field by field: a key that \<^verbatim>\<open>updates\<close> has
  wins, also with the value \<^verbatim>\<open>undefined\<close> for an optional field; a key that it lacks
  keeps the value of the entity; \<^verbatim>\<open>id\<close> and \<^verbatim>\<open>createdAt\<close>, which \<^verbatim>\<open>updates\<close> cannot
  have, are those of the entity.
\<close>

lemma mergeClient_fields:
  "mergeClient c u =
     \<lparr>ClientFields.name = (case ClientUpdates.name u of None \<Rightarrow> ClientFields.name c | Some v \<Rightarrow> v),
      email = (case ClientUpdates.email u of None \<Rightarrow> ClientFields.email c | Some v \<Rightarrow> v),
      phone = (case ClientUpdates.phone u of None \<Rightarrow> ClientFields.phone c | Some v \<Rightarrow> v),
      address = (case ClientUpdates.address u of None \<Rightarrow> ClientFields.address c | Some v \<Rightarrow> v),
      notes = (case ClientUpdates.notes u of None \<Rightarrow> ClientFields.notes c | Some v \<Rightarrow> v),
      Client.id = Client.id c, createdAt = Client.createdAt c\<rparr>"
  by (cases c) (simp add: mergeClient_def split: option.splits)

lemma mergeProject_fields:
  "mergeProject p u =
     \<lparr>ProjectFields.clientId = (case ProjectUpdates.clientId u of None \<Rightarrow> ProjectFields.clientId p | Some v \<Rightarrow> v),
      name = (case ProjectUpdates.name u of None \<Rightarrow> ProjectFields.name p | Some v \<Rightarrow> v),
      description = (case ProjectUpdates.description u of None \<Rightarrow> ProjectFields.description p | Some v \<Rightarrow> v),
      hourlyRate = (case ProjectUpdates.hourlyRate u of None \<Rightarrow> ProjectFields.hourlyRate p | Some v \<Rightarrow> v),
      Project.id = Project.id p, createdAt = Project.createdAt p\<rparr>"
  by (cases p) (simp add: mergeProject_def split: option.splits)

lemma mergeTimeEntry_fields:
  "mergeTimeEntry e u =
     \<lparr>projectId = (case TimeEntryUpdates.projectId u of None \<Rightarrow> TimeEntryFields.projectId e | Some v \<Rightarrow> v),
      clientId = (case TimeEntryUpdates.clientId u of None \<Rightarrow> TimeEntryFields.clientId e | Some v \<Rightarrow> v),
      description = (case TimeEntryUpdates.description u of None \<Rightarrow> TimeEntryFields.description e | Some v \<Rightarrow> v),
      startTime = (case TimeEntryUpdates.startTime u of None \<Rightarrow> TimeEntryFields.startTime e | Some v \<Rightarrow> v),
      endTime = (case TimeEntryUpdates.endTime u of None \<Rightarrow> TimeEntryFields.endTime e | Some v \<Rightarrow> v),
      duration = (case TimeEntryUpdates.duration u of None \<Rightarrow> TimeEntryFields.duration e | Some v \<Rightarrow> v),
      isRunning = (case TimeEntryUpdates.isRunning u of None \<Rightarrow> TimeEntryFields.isRunning e | Some v \<Rightarrow> v),
      TimeEntry.id = TimeEntry.id e, createdAt = TimeEntry.createdAt e\<rparr>"
  by (cases e) (simp add: mergeTimeEntry_def split: option.splits)

lemma update_refused:
  "\<not> acceptsWrites s \<Longrightarrow> snd (updateClient i cu s) = s"
  "\<not> acceptsWrites s \<Longrightarrow> snd (updateProject j pu s) = s"
  "\<not> acceptsWrites s \<Longrightarrow> snd (updateTimeEntry k tu s) = s"
  by (simp_all add: updateClient_find updateProject_find updateTimeEntry_find saveData_def
      split: option.splits)

lemma update_accepted:
  assumes "acceptsWrites s"
  shows "find (\<lambda>c. Client.id c = i) (clients (loadData s)) \<noteq> None \<Longrightarrow>
           loadData (snd (updateClient i cu s)) = (loadData s)\<lparr>clients :=
              replaceFirst (\<lambda>c. Client.id c = i) (\<lambda>c. mergeClient c cu) (clients (loadData s))\<rparr>"
    and "find (\<lambda>p. Project.id p = j) (projects (loadData s)) \<noteq> None \<Longrightarrow>
           loadData (snd (updateProject j pu s)) = (loadData s)\<lparr>projects :=
              replaceFirst (\<lambda>p. Project.id p = j) (\<lambda>p. mergeProject p pu) (projects (loadData s))\<rparr>"
    and "find (\<lambda>e. TimeEntry.id e = k) (timeEntries (loadData s)) \<noteq> None \<Longrightarrow>
           loadData (snd (updateTimeEntry k tu s)) = (loadData s)\<lparr>timeEntries :=
              replaceFirst (\<lambda>e. TimeEntry.id e = k) (\<lambda>e. mergeTimeEntry e tu) (timeEntries (loadData s))\<rparr>"
  using assms
  by (auto simp add: updateClient_find updateProject_find updateTimeEntry_find load_save)

text \<open>
  C6, as stated, asks that when the id matches the document is persisted. That does
  not hold on every storage. \<^verbatim>\<open>saveData\<close> catches the exception of a refused write, so that
  \<^verbatim>\<open>updateClient\<close> on a storage that holds the client \<open>acme\<close> and refuses the write
  returns the renamed client while the storage, and the document loaded from it
  afterwards, still have the client under its old name.
\<close>

theorem update_refused_counterexample:
  "fst (updateClient ''c1'' renameClient busyRefusingStorage)
     = Some (acme\<lparr>ClientFields.name := ''Acme Ltd''\<rparr>)
   \<and> snd (updateClient ''c1'' renameClient busyRefusingStorage) = busyRefusingStorage
   \<and> loadData (snd (updateClient ''c1'' renameClient busyRefusingStorage)) = sampleData
   \<and> clients sampleData = [acme]
   \<and> ClientFields.name acme = ''Acme''"
  by (simp add: updateClient_def Let_def busyRefusingStorage_def loadData_def stringify_def
      spread_def sampleData_def acme_def saveData_def mergeClient_def renameClient_def)

text \<open>
  C6, amended. Each of \<^verbatim>\<open>updateClient\<close>, \<^verbatim>\<open>updateProject\<close> and \<^verbatim>\<open>updateTimeEntry\<close>
  looks the entity up by id in the loaded document. When no entity has the id, the
  result is the absence value and the storage is the one before the call: nothing is
  saved. When an entity has the id, the fields given are merged over the first such
  entity, the document with that entity replaced is handed to \<^verbatim>\<open>saveData\<close>, and the
  merged entity is returned. The merge is shallow and field by field: a field that the
  update gives takes the given value (for an optional field also \<^verbatim>\<open>undefined\<close>), every
  other field, \<^verbatim>\<open>id\<close> and \<^verbatim>\<open>createdAt\<close> keep the value of the entity. On a storage
  that accepts the write the document with the merged entity is the one loaded
  afterwards; on a storage that refuses it the storage is left as it was.
\<close>

theorem update_not_found_atomicity:
  "updateClient i cu s =
     (case find (\<lambda>c. Client.id c = i) (clients (loadData s)) of
        None \<Rightarrow> (None, s)
      | Some c \<Rightarrow>
          (Some (mergeClient c cu),
           saveData ((loadData s)\<lparr>clients :=
              replaceFirst (\<lambda>c. Client.id c = i) (\<lambda>c. mergeClient c cu) (clients (loadData s))\<rparr>) s))
   \<and> updateProject j pu s =
     (case find (\<lambda>p. Project.id p = j) (projects (loadData s)) of
        None \<Rightarrow> (None, s)
      | Some p \<Rightarrow>
          (Some (mergeProject p pu),
           saveData ((loadData s)\<lparr>projects :=
              replaceFirst (\<lambda>p. Project.id p = j) (\<lambda>p. mergeProject p pu) (projects (loadData s))\<rparr>) s))
   \<and> updateTimeEntry k tu s =
     (case find (\<lambda>e. TimeEntry.id e = k) (timeEntries (loadData s)) of
        None \<Rightarrow> (None, s)
      | Some e \<Rightarrow>
          (Some (mergeTimeEntry e tu),
           saveData ((loadData s)\<lparr>timeEntries :=
              replaceFirst (\<lambda>e. TimeEntry.id e = k) (\<lambda>e. mergeTimeEntry e tu) (timeEntries (loadData s))\<rparr>) s))
   \<and> mergeClient c cu =
     \<lparr>ClientFields.name = (case ClientUpdates.name cu of None \<Rightarrow> ClientFields.name c | Some v \<Rightarrow> v),
      email = (case ClientUpdates.email cu of None \<Rightarrow> ClientFields.email c | Some v \<Rightarrow> v),
      phone = (case ClientUpdates.phone cu of None \<Rightarrow> ClientFields.phone c | Some v \<Rightarrow> v),
      address = (case ClientUpdates.address cu of None \<Rightarrow> ClientFields.address c | Some v \<Rightarrow> v),
      notes = (case ClientUpdates.notes cu of None \<Rightarrow> ClientFields.notes c | Some v \<Rightarrow> v),
      Client.id = Client.id c, createdAt = Client.createdAt c\<rparr>
   \<and> mergeProject p pu =
     \<lparr>ProjectFields.clientId = (case ProjectUpdates.clientId pu of None \<Rightarrow> ProjectFields.clientId p | Some v \<Rightarrow> v),
      name = (case ProjectUpdates.name pu of None \<Rightarrow> ProjectFields.name p | Some v \<Rightarrow> v),
      description = (case ProjectUpdates.description pu of None \<Rightarrow> ProjectFields.description p | Some v \<Rightarrow> v),
      hourlyRate = (case ProjectUpdates.hourlyRate pu of None \<Rightarrow> ProjectFields.hourlyRate p | Some v \<Rightarrow> v),
      Project.id = Project.id p, createdAt = Project.createdAt p\<rparr>
   \<and> mergeTimeEntry e tu =
     \<lparr>projectId = (case TimeEntryUpdates.projectId tu of None \<Rightarrow> TimeEntryFields.projectId e | Some v \<Rightarrow> v),
      clientId = (case TimeEntryUpdates.clientId tu of None \<Rightarrow> TimeEntryFields.clientId e | Some v \<Rightarrow> v),
      description = (case TimeEntryUpdates.description tu of None \<Rightarrow> TimeEntryFields.description e | Some v \<Rightarrow> v),
      startTime = (case TimeEntryUpdates.startTime tu of None \<Rightarrow> TimeEntryFields.startTime e | Some v \<Rightarrow> v),
      endTime = (case TimeEntryUpdates.endTime tu of None \<Rightarrow> TimeEntryFields.endTime e | Some v \<Rightarrow> v),
      duration = (case TimeEntryUpdates.duration tu of None \<Rightarrow> TimeEntryFields.duration e | Some v \<Rightarrow> v),
      isRunning = (case TimeEntryUpdates.isRunning tu of None \<Rightarrow> TimeEntryFields.isRunning e | Some v \<Rightarrow> v),
      TimeEntry.id = TimeEntry.id e, createdAt = TimeEntry.createdAt e\<rparr>
   \<and> (acceptsWrites s \<longrightarrow>
        (find (\<lambda>c. Client.id c = i) (clients (loadData s)) \<noteq> None \<longrightarrow>
           loadData (snd (updateClient i cu s)) = (loadData s)\<lparr>clients :=
              replaceFirst (\<lambda>c. Client.id c = i) (\<lambda>c. mergeClient c cu) (clients (loadData s))\<rparr>)
        \<and> (find (\<lambda>p. Project.id p = j) (projects (loadData s)) \<noteq> None \<longrightarrow>
           loadData (snd (updateProject j pu s)) = (loadData s)\<lparr>projects :=
              replaceFirst (\<lambda>p. Project.id p = j) (\<lambda>p. mergeProject p pu) (projects (loadData s))\<rparr>)
        \<and> (find (\<lambda>e. TimeEntry.id e = k) (timeEntries (loadData s)) \<noteq> None \<longrightarrow>
           loadData (snd (updateTimeEntry k tu s)) = (loadData s)\<lparr>timeEntries :=
              replaceFirst (\<lambda>e. TimeEntry.id e = k) (\<lambda>e. mergeTimeEntry e tu) (timeEntries (loadData s))\<rparr>))
   \<and> (\<not> acceptsWrites s \<longrightarrow>
        snd (updateClient i cu s) = s \<and> snd (updateProject j pu s) = s
        \<and> snd (updateTimeEntry k tu s) = s)"
  using update_accepted(1) [of s i cu] update_accepted(2) [of s j pu]
    update_accepted(3) [of s k tu] update_refused(1) [of s i cu]
    update_refused(2) [of s j pu] update_refused(3) [of s k tu]
  by (simp only: updateClient_find updateProject_find updateTimeEntry_find
      mergeClient_fields [symmetric] mergeProject_fields [symmetric]
      mergeTimeEntry_fields [symmetric]) simp

theorem update_not_found_atomicity_witness:
  "updateTimeEntry ''nonexistent-id'' describeUpdate sampleStorage = (None, sampleStorage)
   \<and> updateProject ''p2'' noProjectUpdates sampleStorage = (None, sampleStorage)
   \<and> updateClient ''c9'' renameClient sampleStorage = (None, sampleStorage)
   \<and> fst (updateClient ''c1'' renameClient sampleStorage)
       = Some (acme\<lparr>ClientFields.name := ''Acme Ltd''\<rparr>)
   \<and> loadData (snd (updateClient ''c1'' renameClient sampleStorage))
       = sampleData\<lparr>clients := [acme\<lparr>ClientFields.name := ''Acme Ltd''\<rparr>]\<rparr>
   \<and> fst (updateProject ''p1'' changeProject sampleStorage)
       = Some \<lparr>ProjectFields.clientId = ''c1'', name = ''Relaunch'', description = Some ''new site'',
               hourlyRate = None, Project.id = ''p1'', createdAt = 2000\<rparr>
   \<and> loadData (snd (updateProject ''p1'' changeProject sampleStorage))
       = sampleData\<lparr>projects :=
           [\<lparr>ProjectFields.clientId = ''c1'', name = ''Relaunch'', description = Some ''new site'',
             hourlyRate = None, Project.id = ''p1'', createdAt = 2000\<rparr>]\<rparr>
   \<and> fst (updateTimeEntry ''e1'' unassign sampleStorage)
       = Some \<lparr>projectId = None, clientId = None, description = ''logo'',
               startTime = 10000, endTime = None, duration = 0, isRunning = True,
               TimeEntry.id = ''e1'', createdAt = 10000\<rparr>
   \<and> loadData (snd (updateTimeEntry ''e1'' unassign sampleStorage))
       = sampleData\<lparr>timeEntries :=
           [\<lparr>projectId = None, clientId = None, description = ''logo'',
             startTime = 10000, endTime = None, duration = 0, isRunning = True,
             TimeEntry.id = ''e1'', createdAt = 10000\<rparr>]\<rparr>
   \<and> snd (updateProject ''p1'' changeProject busyRefusingStorage) = busyRefusingStorage"
  using update_not_found_atomicity [of "''c9''" renameClient sampleStorage
      "''p2''" noProjectUpdates "''nonexistent-id''" describeUpdate]
    update_not_found_atomicity [of "''c1''" renameClient sampleStorage
      "''p1''" changeProject "''e1''" unassign acme website design]
    update_not_found_atomicity [of "''c1''" renameClient busyRefusingStorage
      "''p1''" changeProject "''e1''" unassign]
  by (simp add: sampleStorage_def busyRefusingStorage_def loadData_def stringify_def spread_def
      sampleData_def acme_def website_def design_def saveData_def renameClient_def
      changeProject_def unassign_def noUpdates_def)

section \<open>Entity repository: deletes\<close>

text \<open>
  C10. A delete with an unmatched id persists nothing. When the loaded document has no
  Client with the id, \<^verbatim>\<open>deleteClient\<close> returns \<^verbatim>\<open>false\<close> and leaves the storage as
  it was, also when Projects or TimeEntries refer to that id; \<^verbatim>\<open>deleteProject\<close> and
  \<^verbatim>\<open>deleteTimeEntry\<close> do the same when no Project, respectively no TimeEntry, has
  the id.
\<close>

theorem delete_unmatched_persists_nothing:
  "((\<forall>c\<in>set (clients (loadData s)). Client.id c \<noteq> i) \<longrightarrow> deleteClient i s = (False, s))
   \<and> ((\<forall>p\<in>set (projects (loadData s)). Project.id p \<noteq> i) \<longrightarrow> deleteProject i s = (False, s))
   \<and> ((\<forall>e\<in>set (timeEntries (loadData s)). TimeEntry.id e \<noteq> i)
         \<longrightarrow> deleteTimeEntry i s = (False, s))"
  by (simp add: deleteClient_def deleteProject_def deleteTimeEntry_def Let_def
      length_filter_less_iff)

theorem delete_unmatched_persists_nothing_witness:
  "deleteClient ''c1'' danglingStorage = (False, danglingStorage)
   \<and> deleteProject ''c1'' danglingStorage = (False, danglingStorage)
   \<and> deleteTimeEntry ''c1'' danglingStorage = (False, danglingStorage)
   \<and> loadData danglingStorage = \<lparr>clients = [], projects = [website], timeEntries = [design]\<rparr>
   \<and> ProjectFields.clientId website = ''c1'' \<and> TimeEntryFields.clientId design = Some ''c1''"
  using delete_unmatched_persists_nothing [of danglingStorage "''c1''"]
  by (simp add: danglingStorage_def loadData_def stringify_def spread_def website_def design_def)

text \<open>
  C5, as stated, asks that \<^verbatim>\<open>deleteClient(id)\<close> removes, for every document and id,
  every Project whose \<open>clientId\<close> is the id and every TimeEntry that refers to the id.
  The function saves only when the list of clients became shorter. In a document with
  no Client \<^verbatim>\<open>c1\<close> but a Project and a TimeEntry of client \<^verbatim>\<open>c1\<close>, the call returns
  \<^verbatim>\<open>false\<close> and both are still there afterwards.
\<close>

theorem deleteClient_dangling_counterexample:
  "fst (deleteClient ''c1'' danglingStorage) = False
   \<and> projects (loadData (snd (deleteClient ''c1'' danglingStorage))) = [website]
   \<and> timeEntries (loadData (snd (deleteClient ''c1'' danglingStorage))) = [design]
   \<and> ProjectFields.clientId website = ''c1''
   \<and> TimeEntryFields.clientId design = Some ''c1''"
  by (simp add: deleteClient_doc danglingStorage_def loadData_def stringify_def spread_def
      website_def design_def)

text \<open>
  C5, amended. \<^verbatim>\<open>deleteClient(id)\<close> returns \<^verbatim>\<open>true\<close> exactly when the loaded document
  has a Client with that id. In that case it saves the document without the client:
  without every Client with that id, every Project whose \<open>clientId\<close> is the id, and
  every TimeEntry whose \<open>clientId\<close> is the id or whose \<open>projectId\<close> is the id of one of
  the removed Projects; no TimeEntry that refers to a removed Project is left in it, and
  when the storage accepts the write this is the document loaded afterwards. When no
  Client has the id, it returns \<^verbatim>\<open>false\<close> and the storage is unchanged.
\<close>

theorem deleteClient_cascade:
  "deleteClient i s =
     (if \<exists>c\<in>set (clients (loadData s)). Client.id c = i
      then (True, saveData (withoutClient i (loadData s)) s)
      else (False, s))
   \<and> (\<forall>c\<in>set (clients (withoutClient i d)). Client.id c \<noteq> i)
   \<and> (\<forall>p\<in>set (projects (withoutClient i d)). ProjectFields.clientId p \<noteq> i)
   \<and> (\<forall>e\<in>set (timeEntries (withoutClient i d)).
         TimeEntryFields.clientId e \<noteq> Some i
         \<and> (\<forall>p\<in>set (projects d). ProjectFields.clientId p = i
               \<longrightarrow> TimeEntryFields.projectId e \<noteq> Some (Project.id p)))
   \<and> (acceptsWrites s \<longrightarrow> (\<exists>c\<in>set (clients (loadData s)). Client.id c = i)
         \<longrightarrow> loadData (snd (deleteClient i s)) = withoutClient i (loadData s))"
  by (simp add: deleteClient_doc load_save) (simp add: withoutClient_def)

theorem deleteClient_cascade_witness:
  "fst (deleteClient ''c1'' twoClientsStorage) = True
   \<and> withoutClient ''c1'' twoClients
       = \<lparr>clients = [globex], projects = [intranet], timeEntries = [onIntranet]\<rparr>
   \<and> loadData (snd (deleteClient ''c1'' twoClientsStorage))
       = \<lparr>clients = [globex], projects = [intranet], timeEntries = [onIntranet]\<rparr>"
  using deleteClient_cascade [of "''c1''" twoClientsStorage twoClients]
  by (simp add: twoClientsStorage_def twoClients_def loadData_def stringify_def spread_def
      acme_def globex_def website_def intranet_def onWebsite_def forAcme_def onIntranet_def
      withoutClient_def saveData_def)

section \<open>Timer engine: pause and resume\<close>

text \<open>
  C4. \<^verbatim>\<open>pauseTimer(entryId)\<close> looks up the first entry with the id. When it exists
  and is running, the call returns that entry with \<open>duration\<close> increased by
  \<open>floor((now - startTime) / 1000)\<close> and \<open>isRunning = false\<close>, every other field as
  it was (so \<open>startTime\<close> and \<open>endTime\<close> are unchanged, and an unset \<open>endTime\<close> stays
  unset), and hands the document with that entry replaced to \<^verbatim>\<open>saveData\<close>. When there
  is no such entry or it is not running, the call returns the absence value and the
  storage is unchanged.
\<close>

theorem pauseTimer_behaviour:
  "pauseTimer now entryId s =
     (case find (\<lambda>e. TimeEntry.id e = entryId) (timeEntries (loadData s)) of
        None \<Rightarrow> (None, s)
      | Some entry \<Rightarrow>
          if isRunning entry
          then (Some (entry\<lparr>duration := duration entry + (now - startTime entry) div 1000,
                              isRunning := False\<rparr>),
                saveData ((loadData s)\<lparr>timeEntries :=
                   replaceFirst (\<lambda>e. TimeEntry.id e = entryId)
                     (\<lambda>e. e\<lparr>duration := duration entry + (now - startTime entry) div 1000,
                              isRunning := False\<rparr>)
                     (timeEntries (loadData s))\<rparr>) s)
          else (None, s))
   \<and> (\<forall>r. fst (pauseTimer now entryId s) = Some r \<longrightarrow>
         (\<exists>entry. find (\<lambda>e. TimeEntry.id e = entryId) (timeEntries (loadData s)) = Some entry
            \<and> isRunning entry
            \<and> duration r = duration entry + (now - startTime entry) div 1000
            \<and> \<not> isRunning r
            \<and> startTime r = startTime entry
            \<and> endTime r = endTime entry))"
  by (auto simp add: pauseTimer_find add.commute split: option.splits if_splits)

theorem pauseTimer_behaviour_witness:
  "fst (pauseTimer 135500 ''e1'' sampleStorage) = Some pausedDesign
   \<and> duration pausedDesign = 125 \<and> endTime pausedDesign = None
   \<and> startTime pausedDesign = startTime design
   \<and> timeEntries (loadData (snd (pauseTimer 135500 ''e1'' sampleStorage))) = [pausedDesign]
   \<and> pauseTimer 140000 ''e1'' stoppedStorage = (None, stoppedStorage)
   \<and> pauseTimer 140000 ''e7'' sampleStorage = (None, sampleStorage)"
  using pauseTimer_behaviour [of 135500 "''e1''" sampleStorage]
    pauseTimer_behaviour [of 140000 "''e1''" stoppedStorage]
    pauseTimer_behaviour [of 140000 "''e7''" sampleStorage]
  by (simp add: sampleStorage_def stoppedStorage_def loadData_def stringify_def spread_def
      sampleData_def design_def pausedDesign_def stoppedDesign_def saveData_def)

text \<open>
  C2, as stated, asks that \<^verbatim>\<open>resumeTimer(entryId)\<close> returns the absence value unless
  the entry is paused, that is, not running and without \<open>endTime\<close>. The guard of the
  function tests existence and \<open>isRunning\<close> only. For an entry that was stopped
  (\<open>endTime\<close> set) the call returns the entry, running again and with its \<open>endTime\<close>
  still set.
\<close>

theorem resumeTimer_stopped_counterexample:
  "fst (resumeTimer 200000 200000 ''e1'' stoppedStorage)
     = Some (stoppedDesign\<lparr>startTime := 200000, isRunning := True\<rparr>)
   \<and> endTime stoppedDesign = Some 145000
   \<and> isRunning stoppedDesign = False"
  by (simp add: resumeTimer_find stoppedStorage_def loadData_def stringify_def spread_def
      stoppedDesign_def design_def)

text \<open>
  C2, amended. \<^verbatim>\<open>resumeTimer(entryId)\<close> returns the absence value, and leaves the
  storage unchanged, unless the first entry with the id exists and has
  \<open>isRunning = false\<close>; \<open>endTime\<close> is not examined. Otherwise it runs
  \<^verbatim>\<open>stopAllRunningTimers\<close>, hands to \<^verbatim>\<open>saveData\<close> the document in which the entry has
  \<open>startTime = now\<close> and \<open>isRunning = true\<close>, and returns the entry so updated, its
  \<open>duration\<close> (and every other field) untouched. When the storage accepts the writes,
  the entries stored afterwards are the former ones with every running entry closed and
  the resumed entry updated.
\<close>

theorem resumeTimer_behaviour:
  "resumeTimer nowStop now entryId s =
     (case find (\<lambda>e. TimeEntry.id e = entryId) (timeEntries (loadData s)) of
        None \<Rightarrow> (None, s)
      | Some entry \<Rightarrow>
          if isRunning entry then (None, s)
          else (Some (entry\<lparr>startTime := now, isRunning := True\<rparr>),
                saveData ((loadData (stopAllRunningTimers nowStop s))\<lparr>timeEntries :=
                   replaceFirst (\<lambda>e. TimeEntry.id e = entryId)
                     (\<lambda>e. e\<lparr>startTime := now, isRunning := True\<rparr>)
                     (timeEntries (loadData (stopAllRunningTimers nowStop s)))\<rparr>)
                  (stopAllRunningTimers nowStop s)))
   \<and> (acceptsWrites s
        \<longrightarrow> find (\<lambda>e. TimeEntry.id e = entryId) (timeEntries (loadData s)) = Some paused
        \<longrightarrow> \<not> isRunning paused
        \<longrightarrow> timeEntries (loadData (snd (resumeTimer nowStop now entryId s)))
              = replaceFirst (\<lambda>e. TimeEntry.id e = entryId)
                  (\<lambda>e. e\<lparr>startTime := now, isRunning := True\<rparr>)
                  (map (closeEntry nowStop) (timeEntries (loadData s))))"
  by (simp add: resumeTimer_find load_save loadData_stopAll)

theorem resumeTimer_behaviour_witness:
  "fst (resumeTimer 160000 160001 ''e1'' pausedStorage)
     = Some (pausedDesign\<lparr>startTime := 160001, isRunning := True\<rparr>)
   \<and> timeEntries (loadData (snd (resumeTimer 160000 160001 ''e1'' pausedStorage)))
     = [pausedDesign\<lparr>startTime := 160001, isRunning := True\<rparr>,
        review\<lparr>endTime := Some 160000, duration := 10, isRunning := False\<rparr>]
   \<and> resumeTimer 160000 160001 ''e2'' pausedStorage = (None, pausedStorage)
   \<and> resumeTimer 160000 160001 ''e7'' pausedStorage = (None, pausedStorage)"
  using resumeTimer_behaviour [of 160000 160001 "''e1''" pausedStorage pausedDesign]
    resumeTimer_behaviour [of 160000 160001 "''e2''" pausedStorage pausedDesign]
    resumeTimer_behaviour [of 160000 160001 "''e7''" pausedStorage pausedDesign]
  by (simp add: pausedStorage_def loadData_def stringify_def spread_def
      pausedDesign_def review_def design_def saveData_def stopAllRunningTimers_def
      closeEntry_def elapsed_def)

section \<open>Timer engine: what each operation does to the stored entries\<close>

lemma filter_running_closed [simp]: "filter isRunning (map (closeEntry t) xs) = []"
  by (induction xs) auto

lemma length_filter_replaceFirst_le:
  "length (filter Q (replaceFirst P f xs)) \<le> Suc (length (filter Q xs))"
  by (induction xs) auto

lemma length_filter_replaceFirst_off:
  "(\<And>x. \<not> Q (f x)) \<Longrightarrow> length (filter Q (replaceFirst P f xs)) \<le> length (filter Q xs)"
  by (induction xs) auto

lemma acceptsWrites_updateTimeEntry [simp]:
  "acceptsWrites (snd (updateTimeEntry i u s)) = acceptsWrites s"
  by (simp add: updateTimeEntry_find acceptsWrites_saveData split: option.splits)

lemma acceptsWrites_addTimeEntry [simp]:
  "acceptsWrites (snd (addTimeEntry uuid now e s)) = acceptsWrites s"
  by (simp add: addTimeEntry_def Let_def acceptsWrites_saveData)

lemma acceptsWrites_perform [simp]: "acceptsWrites (perform c s) = acceptsWrites s"
  by (cases c)
     (simp_all add: startTimer_def pauseTimer_def resumeTimer_def stopTimer_def Let_def
        split: option.splits)

lemma acceptsWrites_performAll [simp]: "acceptsWrites (performAll cs s) = acceptsWrites s"
  unfolding performAll_def by (induction cs arbitrary: s) simp_all

lemma entries_startTimer:
  assumes "acceptsWrites s"
  shows "timeEntries (loadData (snd (startTimer nowStop now uuid created projId cliId descr s)))
           = map (closeEntry nowStop) (timeEntries (loadData s))
             @ [fst (startTimer nowStop now uuid created projId cliId descr s)]"
  using assms by (simp add: startTimer_def addTimeEntry_def Let_def load_save loadData_stopAll)

lemma startTimer_result:
  "fst (startTimer nowStop now uuid created projId cliId descr s) =
     \<lparr>projectId = Some projId, clientId = Some cliId, description = descr, startTime = now,
      endTime = None, duration = 0, isRunning = True, TimeEntry.id = uuid, createdAt = created\<rparr>"
  by (simp add: startTimer_def addTimeEntry_def Let_def TimeEntryFields.defs TimeEntry.defs)

lemma entries_pauseTimer:
  assumes "acceptsWrites s"
  shows "timeEntries (loadData (snd (pauseTimer now i s))) =
     (case find (\<lambda>e. TimeEntry.id e = i) (timeEntries (loadData s)) of
        None \<Rightarrow> timeEntries (loadData s)
      | Some entry \<Rightarrow>
          if isRunning entry
          then replaceFirst (\<lambda>e. TimeEntry.id e = i)
                 (\<lambda>e. e\<lparr>duration := (now - startTime entry) div 1000 + duration entry,
                          isRunning := False\<rparr>) (timeEntries (loadData s))
          else timeEntries (loadData s))"
  using assms by (simp add: pauseTimer_find load_save split: option.splits)

lemma entries_stopTimer:
  assumes "acceptsWrites s"
  shows "timeEntries (loadData (snd (stopTimer now i s))) =
     (case find (\<lambda>e. TimeEntry.id e = i) (timeEntries (loadData s)) of
        None \<Rightarrow> timeEntries (loadData s)
      | Some entry \<Rightarrow>
          if isRunning entry
          then replaceFirst (\<lambda>e. TimeEntry.id e = i)
                 (\<lambda>e. e\<lparr>endTime := Some now,
                          duration := (now - startTime entry) div 1000 + duration entry,
                          isRunning := False\<rparr>) (timeEntries (loadData s))
          else timeEntries (loadData s))"
  using assms by (simp add: stopTimer_find load_save split: option.splits)

lemma entries_resumeTimer:
  assumes "acceptsWrites s"
  shows "timeEntries (loadData (snd (resumeTimer nowStop now i s))) =
     (case find (\<lambda>e. TimeEntry.id e = i) (timeEntries (loadData s)) of
        None \<Rightarrow> timeEntries (loadData s)
      | Some entry \<Rightarrow>
          if isRunning entry then timeEntries (loadData s)
          else replaceFirst (\<lambda>e. TimeEntry.id e = i)
                 (\<lambda>e. e\<lparr>startTime := now, isRunning := True\<rparr>)
                 (map (closeEntry nowStop) (timeEntries (loadData s))))"
  using assms by (simp add: resumeTimer_find load_save loadData_stopAll split: option.splits)

lemma one_running_replaceFirst_off:
  assumes "\<And>x. \<not> isRunning (f x)" and "length (filter isRunning xs) \<le> Suc 0"
  shows "length (filter isRunning (replaceFirst P f xs)) \<le> Suc 0"
  using length_filter_replaceFirst_off[of isRunning f P xs] assms by simp

lemma one_running_replaceFirst_closed:
  "length (filter isRunning (replaceFirst P f (map (closeEntry t) xs))) \<le> Suc 0"
  using length_filter_replaceFirst_le[of isRunning P f "map (closeEntry t) xs"] by simp

lemma perform_atMostOneRunning:
  assumes "acceptsWrites s" and "atMostOneRunning (loadData s)"
  shows "atMostOneRunning (loadData (perform c s))"
proof (cases c)
  case (Start nowStop now uuid created projId cliId descr)
  then show ?thesis
    using assms(1) by (simp add: atMostOneRunning_def entries_startTimer)
next
  case (Pause now i)
  with assms show ?thesis
    by (simp add: atMostOneRunning_def entries_pauseTimer one_running_replaceFirst_off
        split: option.splits)
next
  case (Resume nowStop now i)
  with assms show ?thesis
    by (simp add: atMostOneRunning_def entries_resumeTimer one_running_replaceFirst_closed
        split: option.splits)
next
  case (Stop now i)
  with assms show ?thesis
    by (simp add: atMostOneRunning_def entries_stopTimer one_running_replaceFirst_off
        split: option.splits)
qed

lemma performAll_atMostOneRunning:
  assumes "acceptsWrites s" and "atMostOneRunning (loadData s)"
  shows "atMostOneRunning (loadData (performAll calls s))"
  using assms unfolding performAll_def
proof (induction calls arbitrary: s)
  case Nil
  then show ?case by simp
next
  case (Cons c calls)
  from Cons.prems have "atMostOneRunning (loadData (perform c s))"
    by (rule perform_atMostOneRunning)
  moreover from Cons.prems have "acceptsWrites (perform c s)" by simp
  ultimately show ?case using Cons.IH by simp
qed

section \<open>Timer engine: the stored entries follow the state machine\<close>

lemma find_view:
  "find (\<lambda>x. fst x = i) (map view xs) = map_option view (find (\<lambda>e. TimeEntry.id e = i) xs)"
  by (induction xs) auto

lemma map_replaceFirst:
  assumes "\<And>x. x \<in> set xs \<Longrightarrow> P' (g x) = P x"
    and "\<And>x. find P xs = Some x \<Longrightarrow> g (f x) = f' (g x)"
  shows "map g (replaceFirst P f xs) = replaceFirst P' f' (map g xs)"
  using assms by (induction xs) auto

lemma set_replaceFirst:
  "x \<in> set (replaceFirst P f xs) \<Longrightarrow> x \<in> set xs \<or> (\<exists>y. find P xs = Some y \<and> x = f y)"
  by (induction xs) (auto split: if_splits)

lemma find_SomeD: "find P xs = Some x \<Longrightarrow> x \<in> set xs \<and> P x"
  by (induction xs) (auto split: if_splits)

lemma phaseOf_close [simp]: "phaseOf (closeEntry t e) = closePhase (phaseOf e)"
  by (simp add: closeEntry_def closePhase_def phaseOf_def)

lemma phaseOf_simps [simp]:
  "phaseOf e = Running \<longleftrightarrow> isRunning e"
  "phaseOf e = Paused \<longleftrightarrow> \<not> isRunning e \<and> endTime e = None"
  "phaseOf e = Stopped \<longleftrightarrow> \<not> isRunning e \<and> endTime e \<noteq> None"
  by (simp_all add: phaseOf_def)

lemma step_start:
  assumes "acceptsWrites s" "noEndWhileRunning (loadData s)"
  shows "phases (loadData (perform (Start nowStop now uuid created projId cliId descr) s))
           = specPerform (Start nowStop now uuid created projId cliId descr) (phases (loadData s))
       \<and> noEndWhileRunning (loadData (perform (Start nowStop now uuid created projId cliId descr) s))"
  using assms
  by (simp add: phases_def noEndWhileRunning_def entries_startTimer startTimer_result)

lemma step_pause:
  assumes "acceptsWrites s" "noEndWhileRunning (loadData s)"
  shows "phases (loadData (perform (Pause now i) s)) = specPerform (Pause now i) (phases (loadData s))
       \<and> noEndWhileRunning (loadData (perform (Pause now i) s))"
proof (cases "find (\<lambda>e. TimeEntry.id e = i) (timeEntries (loadData s))")
  case None
  with assms show ?thesis
    by (simp add: phases_def noEndWhileRunning_def entries_pauseTimer find_view)
next
  case (Some e)
  show ?thesis
  proof (cases "isRunning e")
    case False
    with Some assms show ?thesis
      by (simp add: phases_def noEndWhileRunning_def entries_pauseTimer find_view)
  next
    case True
    from Some have e: "e \<in> set (timeEntries (loadData s))" by (simp add: find_SomeD)
    with True assms(2) have noEnd: "endTime e = None" by (simp add: noEndWhileRunning_def)
    let ?f = "\<lambda>x::TimeEntry. x\<lparr>duration := (now - startTime e) div 1000 + duration e, isRunning := False\<rparr>"
    have "map view (replaceFirst (\<lambda>e. TimeEntry.id e = i) ?f (timeEntries (loadData s)))
        = replaceFirst (\<lambda>x. fst x = i) (\<lambda>x. (fst x, Paused)) (map view (timeEntries (loadData s)))"
      by (rule map_replaceFirst) (auto simp: Some noEnd phaseOf_def)
    moreover have "noEndWhileRunning (loadData (perform (Pause now i) s))"
      using assms Some True
      by (auto simp add: noEndWhileRunning_def entries_pauseTimer dest!: set_replaceFirst)
    ultimately show ?thesis using Some True assms(1)
      by (simp add: phases_def entries_pauseTimer find_view)
  qed
qed


lemma step_stop:
  assumes "acceptsWrites s" "noEndWhileRunning (loadData s)"
  shows "phases (loadData (perform (Stop now i) s)) = specPerform (Stop now i) (phases (loadData s))
       \<and> noEndWhileRunning (loadData (perform (Stop now i) s))"
proof (cases "find (\<lambda>e. TimeEntry.id e = i) (timeEntries (loadData s))")
  case None
  with assms show ?thesis
    by (simp add: phases_def noEndWhileRunning_def entries_stopTimer find_view)
next
  case (Some e)
  show ?thesis
  proof (cases "isRunning e")
    case False
    with Some assms show ?thesis
      by (simp add: phases_def noEndWhileRunning_def entries_stopTimer find_view)
  next
    case True
    let ?f = "\<lambda>x::TimeEntry. x\<lparr>endTime := Some now,
                duration := (now - startTime e) div 1000 + duration e, isRunning := False\<rparr>"
    have "map view (replaceFirst (\<lambda>e. TimeEntry.id e = i) ?f (timeEntries (loadData s)))
        = replaceFirst (\<lambda>x. fst x = i) (\<lambda>x. (fst x, Stopped)) (map view (timeEntries (loadData s)))"
      by (rule map_replaceFirst) (auto simp: phaseOf_def)
    moreover have "noEndWhileRunning (loadData (perform (Stop now i) s))"
      using assms Some True
      by (auto simp add: noEndWhileRunning_def entries_stopTimer dest!: set_replaceFirst)
    ultimately show ?thesis using Some True assms(1)
      by (simp add: phases_def entries_stopTimer find_view)
  qed
qed

lemma step_resume:
  assumes "acceptsWrites s" "noEndWhileRunning (loadData s)" "admissible (Resume nowStop now i) s"
  shows "phases (loadData (perform (Resume nowStop now i) s))
           = specPerform (Resume nowStop now i) (phases (loadData s))
       \<and> noEndWhileRunning (loadData (perform (Resume nowStop now i) s))"
proof (cases "find (\<lambda>e. TimeEntry.id e = i) (timeEntries (loadData s))")
  case None
  with assms show ?thesis
    by (simp add: phases_def noEndWhileRunning_def entries_resumeTimer find_view)
next
  case (Some e)
  show ?thesis
  proof (cases "isRunning e")
    case True
    with Some assms show ?thesis
      by (simp add: phases_def noEndWhileRunning_def entries_resumeTimer find_view)
  next
    case False
    from Some assms(3) have noEnd: "endTime e = None" by simp
    let ?g = "\<lambda>x::TimeEntry. x\<lparr>startTime := now, isRunning := True\<rparr>"
    let ?ys = "map (closeEntry nowStop) (timeEntries (loadData s))"
    from Some False have found: "find (\<lambda>e. TimeEntry.id e = i) ?ys = Some e"
      by (simp add: find_closeEntry closeEntry_idle)
    have "map view (replaceFirst (\<lambda>e. TimeEntry.id e = i) ?g ?ys)
        = replaceFirst (\<lambda>x. fst x = i) (\<lambda>x. (fst x, Running)) (map view ?ys)"
      by (rule map_replaceFirst) (auto simp: found phaseOf_def)
    moreover have "map view ?ys = map (apsnd closePhase) (map view (timeEntries (loadData s)))"
      by simp
    moreover have "noEndWhileRunning (loadData (perform (Resume nowStop now i) s))"
      using assms(1) Some False noEnd found
      by (auto simp add: noEndWhileRunning_def entries_resumeTimer dest!: set_replaceFirst)
    ultimately show ?thesis using Some False noEnd assms(1)
      by (simp add: phases_def entries_resumeTimer find_view comp_def)
  qed
qed

lemma step_refines:
  assumes "acceptsWrites s" "noEndWhileRunning (loadData s)" "admissible c s"
  shows "phases (loadData (perform c s)) = specPerform c (phases (loadData s))
       \<and> noEndWhileRunning (loadData (perform c s))"
proof (cases c)
  case Start
  with assms show ?thesis using step_start by blast
next
  case Pause
  with assms show ?thesis using step_pause by blast
next
  case Resume
  with assms show ?thesis using step_resume by blast
next
  case Stop
  with assms show ?thesis using step_stop by blast
qed

lemma run_refines:
  assumes "acceptsWrites s" "noEndWhileRunning (loadData s)" "admissibleRun calls s"
  shows "phases (loadData (performAll calls s)) = fold specPerform calls (phases (loadData s))
       \<and> noEndWhileRunning (loadData (performAll calls s))"
  using assms unfolding performAll_def
proof (induction calls arbitrary: s)
  case Nil
  then show ?case by simp
next
  case (Cons c calls)
  from Cons.prems have step: "phases (loadData (perform c s)) = specPerform c (phases (loadData s))"
    "noEndWhileRunning (loadData (perform c s))"
    using step_refines[of s c] by simp_all
  moreover from Cons.prems have "acceptsWrites (perform c s)" "admissibleRun calls (perform c s)"
    by simp_all
  ultimately show ?case using Cons.IH[of "perform c s"] by simp
qed

section \<open>Evaluation on the sample documents\<close>

lemmas sample_defs = sampleStorage_def freshStorage_def busyRefusingStorage_def sampleData_def
  acme_def website_def design_def

lemmas eval_defs = loadData_def stringify_def spread_def saveData_def defaultData_def
  startTimer_def addTimeEntry_def stopAllRunningTimers_def closeEntry_def elapsed_def
  pauseTimer_find stopTimer_find resumeTimer_find Let_def
  TimeEntryFields.defs TimeEntry.defs

section \<open>Timer engine: the single-timer invariant\<close>

text \<open>
  C1, as stated, asks that after any \<^verbatim>\<open>startTimer\<close> call the entry it created is the
  only running one. \<^verbatim>\<open>startTimer\<close> closes the running entries and adds the new one
  through \<^verbatim>\<open>saveData\<close>, which returns normally when the write is refused. On a
  storage that refuses writes and holds the running entry \<^verbatim>\<open>e1\<close>, the call returns a
  new entry \<^verbatim>\<open>e2\<close>, yet the only running entry of the document afterwards is still
  \<^verbatim>\<open>e1\<close>.
\<close>

theorem startTimer_refused_counterexample:
  "filter isRunning (timeEntries (loadData (snd
      (startTimer 200000 200000 ''e2'' 200000 ''p1'' ''c1'' ''logo'' busyRefusingStorage)))) = [design]
   \<and> TimeEntry.id (fst (startTimer 200000 200000 ''e2'' 200000 ''p1'' ''c1'' ''logo'' busyRefusingStorage)) = ''e2''
   \<and> TimeEntry.id design = ''e1''"
  by (simp add: sample_defs eval_defs)

text \<open>
  C1, amended. On a storage that accepts writes: if the document has at most one running
  entry, then after each call of every sequence of \<^verbatim>\<open>startTimer\<close>, \<^verbatim>\<open>pauseTimer\<close>,
  \<^verbatim>\<open>resumeTimer\<close> and \<^verbatim>\<open>stopTimer\<close> calls it has at most one running entry. After
  any \<^verbatim>\<open>startTimer\<close> call, from any document (also one with several running entries),
  the entries are the former ones, each running one closed with
  \<open>duration = priorDuration + floor((now - startTime) / 1000)\<close>, its \<open>endTime\<close> set and
  \<open>isRunning = false\<close>, followed by the new entry, which is the only running one.
\<close>

theorem single_timer_invariant:
  "acceptsWrites s \<longrightarrow>
     (atMostOneRunning (loadData s)
        \<longrightarrow> (\<forall>n. atMostOneRunning (loadData (performAll (take n calls) s))))
     \<and> timeEntries (loadData (snd (startTimer nowStop now uuid created projId cliId descr s)))
         = map (\<lambda>e. if isRunning e
                     then e\<lparr>endTime := Some nowStop,
                            duration := duration e + (nowStop - startTime e) div 1000,
                            isRunning := False\<rparr>
                     else e) (timeEntries (loadData s))
           @ [fst (startTimer nowStop now uuid created projId cliId descr s)]
     \<and> filter isRunning
           (timeEntries (loadData (snd (startTimer nowStop now uuid created projId cliId descr s))))
         = [fst (startTimer nowStop now uuid created projId cliId descr s)]"
proof (intro impI conjI allI)
  fix n
  assume "acceptsWrites s" "atMostOneRunning (loadData s)"
  then show "atMostOneRunning (loadData (performAll (take n calls) s))"
    by (rule performAll_atMostOneRunning)
next
  assume w: "acceptsWrites s"
  have "closeEntry nowStop = (\<lambda>e. if isRunning e
                     then e\<lparr>endTime := Some nowStop,
                            duration := duration e + (nowStop - startTime e) div 1000,
                            isRunning := False\<rparr>
                     else e)"
    by (rule ext) (simp add: closeEntry_def elapsed_def add.commute)
  with w show "timeEntries (loadData (snd (startTimer nowStop now uuid created projId cliId descr s)))
         = map (\<lambda>e. if isRunning e
                     then e\<lparr>endTime := Some nowStop,
                            duration := duration e + (nowStop - startTime e) div 1000,
                            isRunning := False\<rparr>
                     else e) (timeEntries (loadData s))
           @ [fst (startTimer nowStop now uuid created projId cliId descr s)]"
    using entries_startTimer[of s nowStop now uuid created projId cliId descr] by simp
next
  assume "acceptsWrites s"
  then show "filter isRunning
           (timeEntries (loadData (snd (startTimer nowStop now uuid created projId cliId descr s))))
         = [fst (startTimer nowStop now uuid created projId cliId descr s)]"
    by (simp add: entries_startTimer) (simp add: startTimer_result)
qed

theorem single_timer_invariant_witness:
  "atMostOneRunning (loadData (performAll scenario sampleStorage))
   \<and> timeEntries (loadData (snd
        (startTimer 200000 200000 ''e2'' 200001 ''p1'' ''c1'' ''logo'' sampleStorage)))
       = [design\<lparr>endTime := Some 200000, duration := 190, isRunning := False\<rparr>,
          fst (startTimer 200000 200000 ''e2'' 200001 ''p1'' ''c1'' ''logo'' sampleStorage)]
   \<and> filter isRunning (timeEntries (loadData (snd
        (startTimer 200000 200000 ''e2'' 200001 ''p1'' ''c1'' ''logo'' sampleStorage))))
       = [fst (startTimer 200000 200000 ''e2'' 200001 ''p1'' ''c1'' ''logo'' sampleStorage)]"
proof -
  have w: "acceptsWrites sampleStorage" by (simp add: sampleStorage_def)
  have one: "atMostOneRunning (loadData sampleStorage)"
    by (simp add: atMostOneRunning_def sample_defs loadData_def stringify_def spread_def)
  have len: "take 6 scenario = scenario" by (simp add: scenario_def)
  from single_timer_invariant [of sampleStorage scenario 200000 200000 "''e2''" 200001
      "''p1''" "''c1''" "''logo''"] w one
  have "atMostOneRunning (loadData (performAll (take 6 scenario) sampleStorage))"
    and "timeEntries (loadData (snd
        (startTimer 200000 200000 ''e2'' 200001 ''p1'' ''c1'' ''logo'' sampleStorage)))
       = map (\<lambda>e. if isRunning e
                     then e\<lparr>endTime := Some 200000,
                            duration := duration e + (200000 - startTime e) div 1000,
                            isRunning := False\<rparr>
                     else e) (timeEntries (loadData sampleStorage))
           @ [fst (startTimer 200000 200000 ''e2'' 200001 ''p1'' ''c1'' ''logo'' sampleStorage)]"
    and "filter isRunning (timeEntries (loadData (snd
        (startTimer 200000 200000 ''e2'' 200001 ''p1'' ''c1'' ''logo'' sampleStorage))))
       = [fst (startTimer 200000 200000 ''e2'' 200001 ''p1'' ''c1'' ''logo'' sampleStorage)]"
    by blast+
  moreover have "timeEntries (loadData sampleStorage) = [design]"
    by (simp add: sample_defs loadData_def stringify_def spread_def)
  ultimately show ?thesis by (simp add: len design_def)
qed

section \<open>Timer engine: endTime and the stopped phase\<close>

lemma map_endTime_replaceFirst:
  "(\<And>x. endTime (f x) = endTime x) \<Longrightarrow> map endTime (replaceFirst P f xs) = map endTime xs"
  by (induction xs) auto

lemma pauseTimer_endTime:
  "map endTime (timeEntries (loadData (snd (pauseTimer now i s)))) = map endTime (timeEntries (loadData s))"
proof (cases "acceptsWrites s")
  case True
  then show ?thesis
    by (simp add: entries_pauseTimer map_endTime_replaceFirst split: option.splits)
next
  case False
  then have "snd (pauseTimer now i s) = s"
    by (simp add: pauseTimer_find save_refused split: option.splits)
  then show ?thesis by simp
qed

lemma phases_fresh: "phases (loadData freshStorage) = [] \<and> noEndWhileRunning (loadData freshStorage)
   \<and> acceptsWrites freshStorage"
  by (simp add: phases_def noEndWhileRunning_def freshStorage_def loadData_def defaultData_def)

text \<open>
  C3, as stated, asks that in every document reachable from the empty one by the timer
  operations no entry has \<open>endTime\<close> defined while \<open>isRunning = true\<close>. Starting a
  timer, stopping it and resuming it gives an entry that is running and has the
  \<open>endTime\<close> of the stop.
\<close>

theorem resume_after_stop_counterexample:
  "map isRunning (timeEntries (loadData (performAll stopThenResume freshStorage))) = [True]
   \<and> map endTime (timeEntries (loadData (performAll stopThenResume freshStorage))) = [Some 145000]"
  by (simp add: stopThenResume_def performAll_def sample_defs eval_defs)

text \<open>
  C3, amended. Take any sequence of timer operations, applied to the empty document in
  a storage that accepts writes, in which \<^verbatim>\<open>resumeTimer\<close> is applied to no entry that
  has an \<open>endTime\<close>. The entries of the resulting document are, in order, those of the
  specification's state machine: an entry has \<open>isRunning = true\<close> exactly when the
  machine has it running, and has \<open>endTime\<close> defined exactly when the machine has it
  stopped; so no entry has \<open>endTime\<close> defined while it is running. And
  \<^verbatim>\<open>pauseTimer\<close>, on any storage, leaves the \<open>endTime\<close> of every entry as it was.
\<close>

theorem endTime_iff_stopped:
  "(admissibleRun calls freshStorage \<longrightarrow>
      map TimeEntry.id (timeEntries (loadData (performAll calls freshStorage)))
        = map fst (fold specPerform calls [])
      \<and> map isRunning (timeEntries (loadData (performAll calls freshStorage)))
        = map (\<lambda>x. snd x = Running) (fold specPerform calls [])
      \<and> map (\<lambda>e. endTime e \<noteq> None) (timeEntries (loadData (performAll calls freshStorage)))
        = map (\<lambda>x. snd x = Stopped) (fold specPerform calls [])
      \<and> (\<forall>e\<in>set (timeEntries (loadData (performAll calls freshStorage))).
            isRunning e \<longrightarrow> endTime e = None))
   \<and> map endTime (timeEntries (loadData (snd (pauseTimer now i s))))
       = map endTime (timeEntries (loadData s))"
proof (intro conjI impI)
  assume adm: "admissibleRun calls freshStorage"
  let ?es = "timeEntries (loadData (performAll calls freshStorage))"
  let ?m = "fold specPerform calls []"
  from run_refines[of freshStorage calls] adm phases_fresh
  have ph: "map view ?es = ?m" and inv: "noEndWhileRunning (loadData (performAll calls freshStorage))"
    by (simp_all add: phases_def)
  from ph have "map fst (map view ?es) = map fst ?m" by simp
  then show "map TimeEntry.id ?es = map fst ?m" by (simp add: comp_def)
  from ph have "map (\<lambda>x. snd x = Running) (map view ?es) = map (\<lambda>x. snd x = Running) ?m" by simp
  then show "map isRunning ?es = map (\<lambda>x. snd x = Running) ?m" by (simp add: comp_def)
  from inv have "\<And>e. e \<in> set ?es \<Longrightarrow> (endTime e \<noteq> None) = (phaseOf e = Stopped)"
    by (auto simp: noEndWhileRunning_def)
  then have "map (\<lambda>e. endTime e \<noteq> None) ?es = map (\<lambda>e. phaseOf e = Stopped) ?es" by simp
  also have "\<dots> = map (\<lambda>x. snd x = Stopped) (map view ?es)" by (simp add: comp_def)
  finally show "map (\<lambda>e. endTime e \<noteq> None) ?es = map (\<lambda>x. snd x = Stopped) ?m"
    using ph by simp
  from inv show "\<forall>e\<in>set ?es. isRunning e \<longrightarrow> endTime e = None"
    by (simp add: noEndWhileRunning_def)
next
  show "map endTime (timeEntries (loadData (snd (pauseTimer now i s))))
       = map endTime (timeEntries (loadData s))"
    by (rule pauseTimer_endTime)
qed

lemma scenario_admissible: "admissibleRun scenario freshStorage"
  by (simp add: scenario_def sample_defs eval_defs)

lemma scenario_entries:
  "map endTime (timeEntries (loadData (performAll scenario freshStorage)))
       = [Some 210999, Some 300500, None]"
  by (simp add: scenario_def performAll_def sample_defs eval_defs)

theorem endTime_iff_stopped_witness:
  "admissibleRun scenario freshStorage
   \<and> fold specPerform scenario [] = [(''e1'', Stopped), (''e2'', Stopped), (''e3'', Running)]
   \<and> map TimeEntry.id (timeEntries (loadData (performAll scenario freshStorage))) = [''e1'', ''e2'', ''e3'']
   \<and> map isRunning (timeEntries (loadData (performAll scenario freshStorage))) = [False, False, True]
   \<and> map (\<lambda>e. endTime e \<noteq> None) (timeEntries (loadData (performAll scenario freshStorage)))
       = [True, True, False]
   \<and> map endTime (timeEntries (loadData (performAll scenario freshStorage)))
       = [Some 210999, Some 300500, None]
   \<and> map endTime (timeEntries (loadData (snd (pauseTimer 135500 ''e1'' sampleStorage)))) = [None]"
proof -
  have m: "fold specPerform scenario [] = [(''e1'', Stopped), (''e2'', Stopped), (''e3'', Running)]"
    by (simp add: scenario_def closePhase_def)
  have s: "map endTime (timeEntries (loadData sampleStorage)) = [None]"
    by (simp add: sample_defs loadData_def stringify_def spread_def)
  from endTime_iff_stopped [of scenario 135500 "''e1''" sampleStorage] scenario_admissible
  show ?thesis by (simp add: m s scenario_entries)
qed

section \<open>CSV export\<close>

declare digits.simps [simp del]

lemma mset_insertBy: "mset (insertBy cmp x ys) = add_mset x (mset ys)"
  by (induction ys) (auto split: option.splits)

lemma mset_sortBy: "mset (sortBy cmp xs) = mset xs"
  unfolding sortBy_def by (induction xs) (simp_all add: mset_insertBy)

lemma set_insertBy: "set (insertBy cmp x ys) = insert x (set ys)"
  using mset_insertBy[of cmp x ys] by (metis set_mset_add_mset_insert set_mset_mset)

lemma set_sortBy: "set (sortBy cmp xs) = set xs"
  using mset_sortBy[of cmp xs] by (metis set_mset_mset)

lemma compareRows_Some:
  "rowTime rt a = Some ta \<Longrightarrow> rowTime rt b = Some tb \<Longrightarrow> compareRows rt a b = Some (tb - ta)"
  by (simp add: compareRows_def)

lemma compareRows_None: "rowTime rt a = None \<Longrightarrow> compareRows rt a b = None"
  by (simp add: compareRows_def)

lemma notEarlier_iff:
  "rowTime rt a = Some ta \<Longrightarrow> rowTime rt b = Some tb \<Longrightarrow> notEarlier rt a b \<longleftrightarrow> tb \<le> ta"
  by (simp add: notEarlier_def)

lemma notEarlier_trans:
  "notEarlier rt a b \<Longrightarrow> notEarlier rt b c \<Longrightarrow> notEarlier rt a c"
  by (auto simp: notEarlier_def split: option.splits)

lemma descending_insertBy:
  assumes "sorted_wrt (notEarlier rt) rows" and "rowTime rt r = Some k"
    and "\<forall>y\<in>set rows. rowTime rt y \<noteq> None"
  shows "sorted_wrt (notEarlier rt) (insertBy (compareRows rt) r rows)"
  using assms(1,3)
proof (induction rows)
  case Nil
  then show ?case by simp
next
  case (Cons y ys)
  then obtain ky where ky: "rowTime rt y = Some ky" by auto
  show ?case
  proof (cases "ky - k > 0")
    case True
    then have "notEarlier rt y r" using ky assms(2) by (simp add: notEarlier_iff)
    with True Cons ky assms(2) show ?thesis
      by (simp add: compareRows_Some set_insertBy)
  next
    case False
    then have ry: "notEarlier rt r y" using ky assms(2) by (simp add: notEarlier_iff)
    have "notEarlier rt r z" if "z \<in> set ys" for z
    proof -
      from that Cons.prems(1) have "notEarlier rt y z" by simp
      with ry show ?thesis by (rule notEarlier_trans)
    qed
    with False ry Cons.prems(1) ky assms(2) show ?thesis
      by (simp add: compareRows_Some)
  qed
qed

lemma descending_sortBy:
  assumes "\<forall>r\<in>set rows. rowTime rt r \<noteq> None"
  shows "sorted_wrt (notEarlier rt) (sortBy (compareRows rt) rows)"
  using assms
proof (induction rows)
  case Nil
  then show ?case by (simp add: sortBy_def)
next
  case (Cons r rows)
  then obtain k where k: "rowTime rt r = Some k" by auto
  from Cons have "sorted_wrt (notEarlier rt) (sortBy (compareRows rt) rows)" by simp
  moreover from Cons.prems have "\<forall>y\<in>set (sortBy (compareRows rt) rows). rowTime rt y \<noteq> None"
    by (simp add: set_sortBy)
  ultimately have "sorted_wrt (notEarlier rt) (insertBy (compareRows rt) r (sortBy (compareRows rt) rows))"
    using k by (simp add: descending_insertBy)
  then show ?case by (simp add: sortBy_def)
qed

lemma insertBy_None: "rowTime rt r = None \<Longrightarrow> insertBy (compareRows rt) r rows = r # rows"
  by (cases rows) (simp_all add: compareRows_None)

lemma sortBy_unparsed:
  assumes "\<forall>r\<in>set rows. rowTime rt r = None"
  shows "sortBy (compareRows rt) rows = rows"
  using assms unfolding sortBy_def by (induction rows) (simp_all add: insertBy_None)

lemma replaceQuotes_concat:
  "replaceQuotes cell = concat (map (\<lambda>c. if c = doubleQuote then [doubleQuote, doubleQuote] else [c]) cell)"
  by (induction cell) simp_all

lemma length_csvRow: "length (csvRow rt d e) = 8"
  by (simp add: csvRow_def Let_def)

lemma digits_small: "n < 10 \<Longrightarrow> digits n = [''0123456789'' ! n]"
  by (subst digits.simps) simp

lemmas csv_defs = csvStorage_def logo_def call_def acme_def website_def germanRuntime_def
  lenientParse_def strictParse_def loadData_def stringify_def spread_def
  sortedRows_def sortBy_def compareRows_def rowTime_def csvRow_def Let_def
  formattedDuration_def toString_def padStart2_def digits_small signed_modulo_int_def

text \<open>
  C8. The rows of \<^verbatim>\<open>exportToCSV\<close> are meant to be sorted by date, most recent first
  (the comment of the source says so, as the claim does). The comparator rebuilds a date
  from the German date of the row: \<^verbatim>\<open>5.3.2024\<close> becomes \<^verbatim>\<open>2024-3-5\<close>, whose month and
  day have one digit, which is not the format ECMAScript obliges \<^verbatim>\<open>Date\<close> to parse. On
  an engine that parses that format only (JavaScriptCore does; V8 accepts the string)
  both dates are invalid, the comparator gives \<^verbatim>\<open>NaN\<close> and the rows stay in the order
  of the entries: here the row of 5 March before the row of 7 March.
\<close>

theorem exportToCSV_strict_parser_unsorted:
  "map hd (sortedRows (germanRuntime strictParse) (loadData csvStorage)) = [''5.3.2024'', ''7.3.2024'']
   \<and> map startTime (timeEntries (loadData csvStorage)) = [1709632800000, 1709803800000]
   \<and> exportToCSV (germanRuntime strictParse) csvStorage
       = join [lineFeed] (map csvLine
           [headers,
            csvRow (germanRuntime strictParse) (loadData csvStorage) logo,
            csvRow (germanRuntime strictParse) (loadData csvStorage) call])"
  by (simp add: exportToCSV_def csv_defs)

text \<open>
  What the export does on every runtime and every storage. The text is the header line
  and the rows, each cell between double quotes with every double quote of the cell
  doubled, the cells of a line joined by \<^verbatim>\<open>;\<close> and the lines by line feeds. The rows are
  the rows of the time entries, one for each entry, rearranged; each has eight cells,
  as the header line has. The date the comparator reads from a row is the one the
  runtime parses from the entry's German date, turned around. When the runtime parses
  it for every entry, the rows are in descending order of that date.
\<close>

lemma exportToCSV_format:
  "exportToCSV rt s =
     join [lineFeed]
       (map (\<lambda>row. join '';''
               (map (\<lambda>cell. doubleQuote
                       # concat (map (\<lambda>c. if c = doubleQuote then [doubleQuote, doubleQuote] else [c]) cell)
                       @ [doubleQuote]) row))
          (headers # sortedRows rt (loadData s)))
   \<and> mset (sortedRows rt (loadData s))
       = mset (map (csvRow rt (loadData s)) (timeEntries (loadData s)))
   \<and> length (sortedRows rt (loadData s)) = length (timeEntries (loadData s))
   \<and> (\<forall>row\<in>set (headers # sortedRows rt (loadData s)). length row = 8)
   \<and> (\<forall>e. rowTime rt (csvRow rt (loadData s) e)
           = dateGetTime rt (join ''-'' (rev (split CHR ''.'' (toLocaleDateString rt (startTime e))))))
   \<and> ((\<forall>e\<in>set (timeEntries (loadData s)). rowTime rt (csvRow rt (loadData s) e) \<noteq> None)
        \<longrightarrow> sorted_wrt (notEarlier rt) (sortedRows rt (loadData s)))"
proof (intro conjI)
  show "exportToCSV rt s =
     join [lineFeed]
       (map (\<lambda>row. join '';''
               (map (\<lambda>cell. doubleQuote
                       # concat (map (\<lambda>c. if c = doubleQuote then [doubleQuote, doubleQuote] else [c]) cell)
                       @ [doubleQuote]) row))
          (headers # sortedRows rt (loadData s)))"
    by (simp add: exportToCSV_def Let_def csvLine_def[abs_def] quoteCell_def[abs_def]
        replaceQuotes_concat)
  show perm: "mset (sortedRows rt (loadData s))
       = mset (map (csvRow rt (loadData s)) (timeEntries (loadData s)))"
    by (simp add: sortedRows_def mset_sortBy)
  from perm have "size (mset (sortedRows rt (loadData s)))
       = size (mset (map (csvRow rt (loadData s)) (timeEntries (loadData s))))" by simp
  then show "length (sortedRows rt (loadData s)) = length (timeEntries (loadData s))"
    by simp
  show "\<forall>row\<in>set (headers # sortedRows rt (loadData s)). length row = 8"
    by (auto simp add: sortedRows_def set_sortBy length_csvRow headers_def)
  show "\<forall>e. rowTime rt (csvRow rt (loadData s) e)
           = dateGetTime rt (join ''-'' (rev (split CHR ''.'' (toLocaleDateString rt (startTime e)))))"
    by (simp add: rowTime_def csvRow_def Let_def)
  show "(\<forall>e\<in>set (timeEntries (loadData s)). rowTime rt (csvRow rt (loadData s) e) \<noteq> None)
        \<longrightarrow> sorted_wrt (notEarlier rt) (sortedRows rt (loadData s))"
    by (simp add: sortedRows_def descending_sortBy)
qed

text \<open>
  When the runtime parses the date of no entry, the comparator is \<^verbatim>\<open>NaN\<close> throughout
  and the rows are those of the entries in the order of the entries.
\<close>

lemma sortedRows_unparsed:
  assumes "\<forall>e\<in>set (timeEntries d). rowTime rt (csvRow rt d e) = None"
  shows "sortedRows rt d = map (csvRow rt d) (timeEntries d)"
  using assms by (simp add: sortedRows_def sortBy_unparsed)

text \<open>The same document on a runtime that parses \<^verbatim>\<open>2024-3-5\<close> and \<^verbatim>\<open>2024-3-7\<close>.\<close>

lemma exportToCSV_lenient_parser_sorted:
  "sortedRows (germanRuntime lenientParse) (loadData csvStorage)
     = [[''7.3.2024'', ''Unbekannt'', ''Unbekannt'', ''call'', ''10:30'', ''-'', ''0.00'', ''0:00''],
        [''5.3.2024'', ''Acme'', ''Website'', ''logo '' @ [doubleQuote] @ ''v2'' @ [doubleQuote],
         ''11:00'', ''11:02'', ''0.04'', ''0:02'']]
   \<and> sorted_wrt (notEarlier (germanRuntime lenientParse))
        (sortedRows (germanRuntime lenientParse) (loadData csvStorage))
   \<and> exportToCSV (germanRuntime lenientParse) csvStorage
     = join [lineFeed]
         (map csvLine (headers # sortedRows (germanRuntime lenientParse) (loadData csvStorage)))
   \<and> csvLine [''logo '' @ [doubleQuote] @ ''v2'' @ [doubleQuote], ''0:02'']
     = [doubleQuote] @ ''logo '' @ [doubleQuote, doubleQuote] @ ''v2'' @ [doubleQuote, doubleQuote]
       @ [doubleQuote] @ '';'' @ [doubleQuote] @ ''0:02'' @ [doubleQuote]"
proof -
  have rows: "sortedRows (germanRuntime lenientParse) (loadData csvStorage)
     = [[''7.3.2024'', ''Unbekannt'', ''Unbekannt'', ''call'', ''10:30'', ''-'', ''0.00'', ''0:00''],
        [''5.3.2024'', ''Acme'', ''Website'', ''logo '' @ [doubleQuote] @ ''v2'' @ [doubleQuote],
         ''11:00'', ''11:02'', ''0.04'', ''0:02'']]"
    by (simp add: csv_defs)
  have parsed: "\<forall>e\<in>set (timeEntries (loadData csvStorage)).
      rowTime (germanRuntime lenientParse) (csvRow (germanRuntime lenientParse) (loadData csvStorage) e) \<noteq> None"
    by (simp add: csv_defs)
  have line: "csvLine [''logo '' @ [doubleQuote] @ ''v2'' @ [doubleQuote], ''0:02'']
     = [doubleQuote] @ ''logo '' @ [doubleQuote, doubleQuote] @ ''v2'' @ [doubleQuote, doubleQuote]
       @ [doubleQuote] @ '';'' @ [doubleQuote] @ ''0:02'' @ [doubleQuote]"
    by (simp add: csvLine_def quoteCell_def doubleQuote_def)
  from exportToCSV_format [of "germanRuntime lenientParse" csvStorage] parsed
  have "sorted_wrt (notEarlier (germanRuntime lenientParse))
        (sortedRows (germanRuntime lenientParse) (loadData csvStorage))" by blast
  then show ?thesis using rows line by (simp add: exportToCSV_def Let_def)
qed

end
